theory Spec2Isabelle
  imports Main "HOL-Library.Word" "HOL-Library.Sublist"
begin

section \<open>Data model of idflog.h\<close>

text \<open>
  \<^verbatim>\<open>idflog_level_t\<close> is a C enum: an integer type whose six enumerators are 0..5, and
  which a caller can fill with any other value through the generic entry points. It is
  modelled as the 32-bit unsigned integer the compiler gives it, with the enumerators as
  named constants.
\<close>

type_synonym idflog_level_t = "32 word"

abbreviation IDFLOG_DEBUG :: idflog_level_t where "IDFLOG_DEBUG \<equiv> 0"
abbreviation IDFLOG_INFO :: idflog_level_t where "IDFLOG_INFO \<equiv> 1"
abbreviation IDFLOG_ERROR :: idflog_level_t where "IDFLOG_ERROR \<equiv> 2"
abbreviation IDFLOG_VERBOSE :: idflog_level_t where "IDFLOG_VERBOSE \<equiv> 3"
abbreviation IDFLOG_WARNING :: idflog_level_t where "IDFLOG_WARNING \<equiv> 4"
abbreviation IDFLOG_WTF :: idflog_level_t where "IDFLOG_WTF \<equiv> 5"

text \<open>
  \<^verbatim>\<open>unsigned long\<close> on the ESP32 targets of ESP-IDF is 32 bits wide. A function pointer
  is a code address; \<^verbatim>\<open>NULL\<close> is \<open>None\<close>. A C string is the list of its characters before
  the terminating NUL.
\<close>

type_synonym ulong = "32 word"
type_synonym idflog_callback_t = "nat option"

text \<open>The static functions whose addresses \<^verbatim>\<open>slog_init\<close> stores in the method fields.\<close>

datatype slog_fn =
    FN_slog_set_print | FN_slog_show_time | FN_slog_set_log_callback
  | FN_slog_d | FN_slog_d_format | FN_slog_e | FN_slog_e_format
  | FN_slog_i | FN_slog_i_format | FN_slog_v | FN_slog_v_format
  | FN_slog_w | FN_slog_w_format | FN_slog_wtf | FN_slog_wtf_format
  | FN_slog_log | FN_slog_log_format

text \<open>
  \<^verbatim>\<open>struct slog\<close>. The private members \<^verbatim>\<open>_print\<close> and \<^verbatim>\<open>_time\<close> are the fields
  \<open>priv_print\<close> and \<open>priv_time\<close>; each method field carries the prefix \<open>m_\<close>. A method
  field that holds none of the functions above (not yet assigned, or zero) is \<open>None\<close>.
\<close>

record slog_t =
  priv_print :: bool
  priv_time :: bool
  logging_callback :: idflog_callback_t
  m_set_print :: "slog_fn option"
  m_show_time :: "slog_fn option"
  m_set_log_callback :: "slog_fn option"
  m_d :: "slog_fn option"
  m_d_format :: "slog_fn option"
  m_e :: "slog_fn option"
  m_e_format :: "slog_fn option"
  m_i :: "slog_fn option"
  m_i_format :: "slog_fn option"
  m_v :: "slog_fn option"
  m_v_format :: "slog_fn option"
  m_w :: "slog_fn option"
  m_w_format :: "slog_fn option"
  m_wtf :: "slog_fn option"
  m_wtf_format :: "slog_fn option"
  m_log :: "slog_fn option"
  m_log_format :: "slog_fn option"

text \<open>
  The file-scope variables of idflog.c: the three static variables of the standalone
  functions and the global instance \<^verbatim>\<open>slog\<close>.
\<close>

record statics =
  print_enabled :: bool
  show_time_enabled :: bool
  log_callback :: idflog_callback_t
  slog :: slog_t

section \<open>The environment: clock and sinks\<close>

text \<open>
  What the library does to its environment is recorded as a list of events, oldest first:
  a call of a registered callback with its three arguments, a \<^verbatim>\<open>printf\<close> to the console
  with the text written, and an \<^verbatim>\<open>ESP_LOGI\<close> with tag and text.

  \<^verbatim>\<open>gettimeofday\<close> is the clock: the k-th call returns \<open>clock k\<close>, and \<open>reads\<close> counts the
  calls made so far.
\<close>

datatype event =
    Callback nat idflog_level_t ulong string
  | Printf string
  | Esp_logi string string

record timeval =
  tv_sec :: int
  tv_usec :: int

record world =
  clock :: "nat \<Rightarrow> timeval"
  reads :: nat
  out :: "event list"

definition emit :: "event \<Rightarrow> world \<Rightarrow> world" where
  "emit ev w = w\<lparr>out := out w @ [ev]\<rparr>"

text \<open>
  A callback is user code behind a function pointer. While it runs it can do whatever the
  program can: call the library's setters on the configuration the dispatcher is using,
  log again, print, read the clock. \<open>code cb level t s (c, w)\<close> is the configuration and
  the world in which the function at address \<open>cb\<close>, called with \<open>(level, t, s)\<close> in
  configuration \<open>c\<close> and world \<open>w\<close>, returns. The configuration is the instance the
  call was made on (instance surface) or the file-scope variables (standalone surface).
\<close>

type_synonym 'c user_code =
  "nat \<Rightarrow> idflog_level_t \<Rightarrow> ulong \<Rightarrow> string \<Rightarrow> 'c \<times> world \<Rightarrow> 'c \<times> world"

definition gettimeofday :: "world \<Rightarrow> timeval \<times> world" where
  "gettimeofday w = (clock w (reads w), w\<lparr>reads := Suc (reads w)\<rparr>)"

text \<open>C's integer division truncates towards zero.\<close>

definition c_div :: "int \<Rightarrow> int \<Rightarrow> int" where
  "c_div a b = (if (a < 0) = (b < 0) then \<bar>a\<bar> div \<bar>b\<bar> else - (\<bar>a\<bar> div \<bar>b\<bar>))"

definition get_millis :: "world \<Rightarrow> ulong \<times> world" where
  "get_millis w =
     (case gettimeofday w of
        (tv, w') \<Rightarrow> (word_of_int (tv_sec tv * 1000 + c_div (tv_usec tv) 1000), w'))"

definition get_timestamp_ms :: "world \<Rightarrow> ulong \<times> world" where
  "get_timestamp_ms w =
     (case gettimeofday w of
        (tv, w') \<Rightarrow> (word_of_int (tv_sec tv * 1000 + c_div (tv_usec tv) 1000), w'))"

section \<open>Bounded formatting\<close>

text \<open>
  \<^verbatim>\<open>snprintf(buf, cap, ...)\<close> and \<^verbatim>\<open>vsnprintf(buf, cap, ...)\<close> leave in \<open>buf\<close> the first
  \<open>cap - 1\<close> characters of the full expansion, followed by NUL. The expansion of a
  caller's format string with its arguments is libc's work: a variadic call is
  represented by the text it expands to.
\<close>

definition snprintf :: "nat \<Rightarrow> string \<Rightarrow> string" where
  "snprintf cap expansion = take (cap - 1) expansion"

definition vsnprintf :: "nat \<Rightarrow> string \<Rightarrow> string" where
  "vsnprintf cap expansion = take (cap - 1) expansion"

text \<open>The conversion \<^verbatim>\<open>%lu\<close>: decimal digits, most significant first, no padding.\<close>

definition digit :: "nat \<Rightarrow> char" where
  "digit d = ''0123456789'' ! d"

function fmt_nat :: "nat \<Rightarrow> string" where
  "fmt_nat n = (if n < 10 then [digit n] else fmt_nat (n div 10) @ [digit (n mod 10)])"
  by pat_completeness auto
termination
  by (relation "measure id") auto

declare fmt_nat.simps [simp del]

definition fmt_lu :: "ulong \<Rightarrow> string" where
  "fmt_lu t = fmt_nat (unat t)"

section \<open>The instance surface (slog)\<close>

definition slog_level_name :: "idflog_level_t \<Rightarrow> string" where
  "slog_level_name level =
     (if level = IDFLOG_DEBUG then ''[DEBUG]''
      else if level = IDFLOG_INFO then ''[INFO]''
      else if level = IDFLOG_ERROR then ''[ERROR]''
      else if level = IDFLOG_VERBOSE then ''[VERBOSE]''
      else if level = IDFLOG_WARNING then ''[WARNING]''
      else if level = IDFLOG_WTF then ''[WTF]''
      else ''[UNKNOWN]'')"

definition slog_set_print :: "slog_t \<Rightarrow> bool \<Rightarrow> slog_t" where
  "slog_set_print self state = self\<lparr>priv_print := state\<rparr>"

definition slog_show_time :: "slog_t \<Rightarrow> bool \<Rightarrow> slog_t" where
  "slog_show_time self state = self\<lparr>priv_time := state\<rparr>"

definition slog_set_log_callback :: "slog_t \<Rightarrow> idflog_callback_t \<Rightarrow> slog_t" where
  "slog_set_log_callback self callback = self\<lparr>logging_callback := callback\<rparr>"

text \<open>
  \<^verbatim>\<open>slog_send_logs\<close> is three statements after the clock is read. The first fills the
  local buffer \<^verbatim>\<open>char msg[512]\<close> by \<^verbatim>\<open>snprintf\<close>: format \<^verbatim>\<open>"%lu %s: %s\n"\<close> when \<^verbatim>\<open>_time\<close> is
  set, \<^verbatim>\<open>"%s: %s\n"\<close> otherwise; \<open>slog_msg\<close> is the buffer's contents.
\<close>

definition slog_msg :: "bool \<Rightarrow> ulong \<Rightarrow> idflog_level_t \<Rightarrow> string \<Rightarrow> string" where
  "slog_msg show_t time level message =
     (if show_t
      then snprintf 512
             (fmt_lu time @ '' '' @ slog_level_name level @ '': '' @ message @ [CHR 0x0A])
      else snprintf 512 (slog_level_name level @ '': '' @ message @ [CHR 0x0A]))"

text \<open>
  The second statement,
  \<^verbatim>\<open>if (self->logging_callback != NULL) { self->logging_callback(level, time, msg); }\<close>:
  the call is recorded, then the callback runs on the instance and the world.
\<close>

definition slog_send_logs_callback ::
  "slog_t user_code \<Rightarrow> slog_t \<Rightarrow> idflog_level_t \<Rightarrow> ulong \<Rightarrow> string \<Rightarrow> world
     \<Rightarrow> slog_t \<times> world" where
  "slog_send_logs_callback code self level time msg w =
     (case logging_callback self of
        Some cb \<Rightarrow> code cb level time msg (self, emit (Callback cb level time msg) w)
      | None \<Rightarrow> (self, w))"

text \<open>
  The third statement, \<^verbatim>\<open>if (self->_print) { printf("%s", msg); }\<close>: it reads \<^verbatim>\<open>_print\<close>
  when the callback has returned.
\<close>

definition slog_send_logs_print :: "slog_t \<times> world \<Rightarrow> string \<Rightarrow> slog_t \<times> world" where
  "slog_send_logs_print st msg =
     (case st of
        (self, w) \<Rightarrow> if priv_print self then (self, emit (Printf msg) w) else (self, w))"

definition slog_send_logs ::
  "slog_t user_code \<Rightarrow> slog_t \<Rightarrow> idflog_level_t \<Rightarrow> string \<Rightarrow> world \<Rightarrow> slog_t \<times> world" where
  "slog_send_logs code self level message w =
     (case get_millis w of
        (time, w1) \<Rightarrow>
          let msg = slog_msg (priv_time self) time level message
          in slog_send_logs_print (slog_send_logs_callback code self level time msg w1) msg)"

definition slog_d :: "slog_t user_code \<Rightarrow> slog_t \<Rightarrow> string \<Rightarrow> world \<Rightarrow> slog_t \<times> world" where
  "slog_d code self msg w = slog_send_logs code self IDFLOG_DEBUG msg w"

definition slog_d_format ::
  "slog_t user_code \<Rightarrow> slog_t \<Rightarrow> string \<Rightarrow> world \<Rightarrow> slog_t \<times> world" where
  "slog_d_format code self expansion w =
     slog_send_logs code self IDFLOG_DEBUG (vsnprintf 256 expansion) w"

definition slog_e :: "slog_t user_code \<Rightarrow> slog_t \<Rightarrow> string \<Rightarrow> world \<Rightarrow> slog_t \<times> world" where
  "slog_e code self msg w = slog_send_logs code self IDFLOG_ERROR msg w"

definition slog_e_format ::
  "slog_t user_code \<Rightarrow> slog_t \<Rightarrow> string \<Rightarrow> world \<Rightarrow> slog_t \<times> world" where
  "slog_e_format code self expansion w =
     slog_send_logs code self IDFLOG_ERROR (vsnprintf 256 expansion) w"

definition slog_i :: "slog_t user_code \<Rightarrow> slog_t \<Rightarrow> string \<Rightarrow> world \<Rightarrow> slog_t \<times> world" where
  "slog_i code self msg w = slog_send_logs code self IDFLOG_INFO msg w"

definition slog_i_format ::
  "slog_t user_code \<Rightarrow> slog_t \<Rightarrow> string \<Rightarrow> world \<Rightarrow> slog_t \<times> world" where
  "slog_i_format code self expansion w =
     slog_send_logs code self IDFLOG_INFO (vsnprintf 256 expansion) w"

definition slog_v :: "slog_t user_code \<Rightarrow> slog_t \<Rightarrow> string \<Rightarrow> world \<Rightarrow> slog_t \<times> world" where
  "slog_v code self msg w = slog_send_logs code self IDFLOG_VERBOSE msg w"

definition slog_v_format ::
  "slog_t user_code \<Rightarrow> slog_t \<Rightarrow> string \<Rightarrow> world \<Rightarrow> slog_t \<times> world" where
  "slog_v_format code self expansion w =
     slog_send_logs code self IDFLOG_VERBOSE (vsnprintf 256 expansion) w"

definition slog_w :: "slog_t user_code \<Rightarrow> slog_t \<Rightarrow> string \<Rightarrow> world \<Rightarrow> slog_t \<times> world" where
  "slog_w code self msg w = slog_send_logs code self IDFLOG_WARNING msg w"

definition slog_w_format ::
  "slog_t user_code \<Rightarrow> slog_t \<Rightarrow> string \<Rightarrow> world \<Rightarrow> slog_t \<times> world" where
  "slog_w_format code self expansion w =
     slog_send_logs code self IDFLOG_WARNING (vsnprintf 256 expansion) w"

definition slog_wtf :: "slog_t user_code \<Rightarrow> slog_t \<Rightarrow> string \<Rightarrow> world \<Rightarrow> slog_t \<times> world" where
  "slog_wtf code self msg w = slog_send_logs code self IDFLOG_WTF msg w"

definition slog_wtf_format ::
  "slog_t user_code \<Rightarrow> slog_t \<Rightarrow> string \<Rightarrow> world \<Rightarrow> slog_t \<times> world" where
  "slog_wtf_format code self expansion w =
     slog_send_logs code self IDFLOG_WTF (vsnprintf 256 expansion) w"

definition slog_log ::
  "slog_t user_code \<Rightarrow> slog_t \<Rightarrow> idflog_level_t \<Rightarrow> string \<Rightarrow> world \<Rightarrow> slog_t \<times> world" where
  "slog_log code self level msg w = slog_send_logs code self level msg w"

definition slog_log_format ::
  "slog_t user_code \<Rightarrow> slog_t \<Rightarrow> idflog_level_t \<Rightarrow> string \<Rightarrow> world \<Rightarrow> slog_t \<times> world" where
  "slog_log_format code self level expansion w =
     slog_send_logs code self level (vsnprintf 256 expansion) w"

definition slog_init :: "slog_t \<Rightarrow> slog_t" where
  "slog_init slog_instance =
     slog_instance\<lparr>
       priv_print := True,
       priv_time := True,
       logging_callback := None,
       m_set_print := Some FN_slog_set_print,
       m_show_time := Some FN_slog_show_time,
       m_set_log_callback := Some FN_slog_set_log_callback,
       m_d := Some FN_slog_d,
       m_d_format := Some FN_slog_d_format,
       m_e := Some FN_slog_e,
       m_e_format := Some FN_slog_e_format,
       m_i := Some FN_slog_i,
       m_i_format := Some FN_slog_i_format,
       m_v := Some FN_slog_v,
       m_v_format := Some FN_slog_v_format,
       m_w := Some FN_slog_w,
       m_w_format := Some FN_slog_w_format,
       m_wtf := Some FN_slog_wtf,
       m_wtf_format := Some FN_slog_wtf_format,
       m_log := Some FN_slog_log,
       m_log_format := Some FN_slog_log_format\<rparr>"

section \<open>The standalone surface (idflog)\<close>

definition TAG :: string where
  "TAG = ''IDFLOG''"

definition idflog_init :: "statics \<Rightarrow> world \<Rightarrow> statics \<times> world" where
  "idflog_init g w =
     (g\<lparr>slog := slog_init (slog g)\<rparr>,
      emit (Esp_logi TAG ''IDFLOG component initialized with slog'') w)"

definition idflog_set_print :: "statics \<Rightarrow> bool \<Rightarrow> statics" where
  "idflog_set_print g state = g\<lparr>print_enabled := state\<rparr>"

definition idflog_show_time :: "statics \<Rightarrow> bool \<Rightarrow> statics" where
  "idflog_show_time g state = g\<lparr>show_time_enabled := state\<rparr>"

definition idflog_set_callback :: "statics \<Rightarrow> idflog_callback_t \<Rightarrow> statics" where
  "idflog_set_callback g callback = g\<lparr>log_callback := callback\<rparr>"

definition get_level_name :: "idflog_level_t \<Rightarrow> string" where
  "get_level_name level =
     (if level = IDFLOG_DEBUG then ''DEBUG''
      else if level = IDFLOG_INFO then ''INFO''
      else if level = IDFLOG_ERROR then ''ERROR''
      else if level = IDFLOG_VERBOSE then ''VERBOSE''
      else if level = IDFLOG_WARNING then ''WARNING''
      else if level = IDFLOG_WTF then ''WTF''
      else ''UNKNOWN'')"

text \<open>
  \<^verbatim>\<open>send_logs\<close> is two statements after the clock is read. The first,
  \<^verbatim>\<open>if (log_callback != NULL) { log_callback(level, timestamp, message); }\<close>:
  the call is recorded, then the callback runs on the file-scope variables and the world.
\<close>

definition send_logs_callback ::
  "statics user_code \<Rightarrow> statics \<Rightarrow> idflog_level_t \<Rightarrow> ulong \<Rightarrow> string \<Rightarrow> world
     \<Rightarrow> statics \<times> world" where
  "send_logs_callback code g level timestamp message w =
     (case log_callback g of
        Some cb \<Rightarrow> code cb level timestamp message (g, emit (Callback cb level timestamp message) w)
      | None \<Rightarrow> (g, w))"

text \<open>
  The text written by the \<^verbatim>\<open>printf\<close> of \<^verbatim>\<open>send_logs\<close>: format \<^verbatim>\<open>"[%lu] [%s] %s\n"\<close> when
  \<^verbatim>\<open>show_time_enabled\<close> is set, \<^verbatim>\<open>"[%s] %s\n"\<close> otherwise. It goes to the stream directly:
  no buffer bounds it.
\<close>

definition send_logs_text :: "bool \<Rightarrow> ulong \<Rightarrow> idflog_level_t \<Rightarrow> string \<Rightarrow> string" where
  "send_logs_text show_t timestamp level message =
     (if show_t
      then ''['' @ fmt_lu timestamp @ ''] ['' @ get_level_name level @ ''] '' @ message
             @ [CHR 0x0A]
      else ''['' @ get_level_name level @ ''] '' @ message @ [CHR 0x0A])"

text \<open>
  The second statement, \<^verbatim>\<open>if (print_enabled) { if (show_time_enabled) ... else ... }\<close>: it
  reads both variables when the callback has returned.
\<close>

definition send_logs_print ::
  "statics \<times> world \<Rightarrow> ulong \<Rightarrow> idflog_level_t \<Rightarrow> string \<Rightarrow> statics \<times> world" where
  "send_logs_print st timestamp level message =
     (case st of
        (g, w) \<Rightarrow>
          if print_enabled g
          then (g, emit (Printf (send_logs_text (show_time_enabled g) timestamp level message)) w)
          else (g, w))"

definition send_logs ::
  "statics user_code \<Rightarrow> statics \<Rightarrow> idflog_level_t \<Rightarrow> string \<Rightarrow> world \<Rightarrow> statics \<times> world" where
  "send_logs code g level message w =
     (case get_timestamp_ms w of
        (timestamp, w1) \<Rightarrow>
          send_logs_print (send_logs_callback code g level timestamp message w1)
            timestamp level message)"

definition idflog_debug ::
  "statics user_code \<Rightarrow> statics \<Rightarrow> string \<Rightarrow> world \<Rightarrow> statics \<times> world" where
  "idflog_debug code g expansion w = send_logs code g IDFLOG_DEBUG (vsnprintf 256 expansion) w"

definition idflog_info ::
  "statics user_code \<Rightarrow> statics \<Rightarrow> string \<Rightarrow> world \<Rightarrow> statics \<times> world" where
  "idflog_info code g expansion w = send_logs code g IDFLOG_INFO (vsnprintf 256 expansion) w"

definition idflog_error ::
  "statics user_code \<Rightarrow> statics \<Rightarrow> string \<Rightarrow> world \<Rightarrow> statics \<times> world" where
  "idflog_error code g expansion w = send_logs code g IDFLOG_ERROR (vsnprintf 256 expansion) w"

definition idflog_verbose ::
  "statics user_code \<Rightarrow> statics \<Rightarrow> string \<Rightarrow> world \<Rightarrow> statics \<times> world" where
  "idflog_verbose code g expansion w = send_logs code g IDFLOG_VERBOSE (vsnprintf 256 expansion) w"

definition idflog_warning ::
  "statics user_code \<Rightarrow> statics \<Rightarrow> string \<Rightarrow> world \<Rightarrow> statics \<times> world" where
  "idflog_warning code g expansion w = send_logs code g IDFLOG_WARNING (vsnprintf 256 expansion) w"

definition idflog_wtf ::
  "statics user_code \<Rightarrow> statics \<Rightarrow> string \<Rightarrow> world \<Rightarrow> statics \<times> world" where
  "idflog_wtf code g expansion w = send_logs code g IDFLOG_WTF (vsnprintf 256 expansion) w"

definition idflog_log ::
  "statics user_code \<Rightarrow> statics \<Rightarrow> idflog_level_t \<Rightarrow> string \<Rightarrow> world \<Rightarrow> statics \<times> world" where
  "idflog_log code g level expansion w = send_logs code g level (vsnprintf 256 expansion) w"

section \<open>Log calls\<close>

text \<open>
  A call of one of the fourteen logging methods of an instance, with its arguments:
  \<^verbatim>\<open>slog.d(&slog, msg)\<close> is \<open>Slog_d msg\<close>, and a formatted call carries the text its format
  and arguments expand to. \<open>slog_run\<close> performs the call with the function that
  \<^verbatim>\<open>slog_init\<close> stores in the method field.
\<close>

datatype slog_call =
    Slog_d string | Slog_d_format string
  | Slog_e string | Slog_e_format string
  | Slog_i string | Slog_i_format string
  | Slog_v string | Slog_v_format string
  | Slog_w string | Slog_w_format string
  | Slog_wtf string | Slog_wtf_format string
  | Slog_log idflog_level_t string | Slog_log_format idflog_level_t string

fun slog_run :: "slog_t user_code \<Rightarrow> slog_t \<Rightarrow> slog_call \<Rightarrow> world \<Rightarrow> slog_t \<times> world" where
  "slog_run code self (Slog_d msg) w = slog_d code self msg w"
| "slog_run code self (Slog_d_format expansion) w = slog_d_format code self expansion w"
| "slog_run code self (Slog_e msg) w = slog_e code self msg w"
| "slog_run code self (Slog_e_format expansion) w = slog_e_format code self expansion w"
| "slog_run code self (Slog_i msg) w = slog_i code self msg w"
| "slog_run code self (Slog_i_format expansion) w = slog_i_format code self expansion w"
| "slog_run code self (Slog_v msg) w = slog_v code self msg w"
| "slog_run code self (Slog_v_format expansion) w = slog_v_format code self expansion w"
| "slog_run code self (Slog_w msg) w = slog_w code self msg w"
| "slog_run code self (Slog_w_format expansion) w = slog_w_format code self expansion w"
| "slog_run code self (Slog_wtf msg) w = slog_wtf code self msg w"
| "slog_run code self (Slog_wtf_format expansion) w = slog_wtf_format code self expansion w"
| "slog_run code self (Slog_log level msg) w = slog_log code self level msg w"
| "slog_run code self (Slog_log_format level expansion) w =
     slog_log_format code self level expansion w"

text \<open>
  The level a call logs at, and its message: the caller's string for a plain call,
  what the 256-byte buffer holds of the expansion for a formatted call.
\<close>

fun slog_call_level :: "slog_call \<Rightarrow> idflog_level_t" where
  "slog_call_level (Slog_d msg) = IDFLOG_DEBUG"
| "slog_call_level (Slog_d_format expansion) = IDFLOG_DEBUG"
| "slog_call_level (Slog_e msg) = IDFLOG_ERROR"
| "slog_call_level (Slog_e_format expansion) = IDFLOG_ERROR"
| "slog_call_level (Slog_i msg) = IDFLOG_INFO"
| "slog_call_level (Slog_i_format expansion) = IDFLOG_INFO"
| "slog_call_level (Slog_v msg) = IDFLOG_VERBOSE"
| "slog_call_level (Slog_v_format expansion) = IDFLOG_VERBOSE"
| "slog_call_level (Slog_w msg) = IDFLOG_WARNING"
| "slog_call_level (Slog_w_format expansion) = IDFLOG_WARNING"
| "slog_call_level (Slog_wtf msg) = IDFLOG_WTF"
| "slog_call_level (Slog_wtf_format expansion) = IDFLOG_WTF"
| "slog_call_level (Slog_log level msg) = level"
| "slog_call_level (Slog_log_format level expansion) = level"

fun slog_call_message :: "slog_call \<Rightarrow> string" where
  "slog_call_message (Slog_d msg) = msg"
| "slog_call_message (Slog_d_format expansion) = take 255 expansion"
| "slog_call_message (Slog_e msg) = msg"
| "slog_call_message (Slog_e_format expansion) = take 255 expansion"
| "slog_call_message (Slog_i msg) = msg"
| "slog_call_message (Slog_i_format expansion) = take 255 expansion"
| "slog_call_message (Slog_v msg) = msg"
| "slog_call_message (Slog_v_format expansion) = take 255 expansion"
| "slog_call_message (Slog_w msg) = msg"
| "slog_call_message (Slog_w_format expansion) = take 255 expansion"
| "slog_call_message (Slog_wtf msg) = msg"
| "slog_call_message (Slog_wtf_format expansion) = take 255 expansion"
| "slog_call_message (Slog_log level msg) = msg"
| "slog_call_message (Slog_log_format level expansion) = take 255 expansion"

text \<open>
  For a call on instance \<open>self\<close> in world \<open>w\<close>: the timestamp it reads, the line it
  renders, and the instance and world in which its callback statement ends (the callback
  has returned, or there is none).
\<close>

definition slog_call_time :: "world \<Rightarrow> ulong" where
  "slog_call_time w = fst (get_millis w)"

definition slog_call_line :: "slog_t \<Rightarrow> slog_call \<Rightarrow> world \<Rightarrow> string" where
  "slog_call_line self c w =
     slog_msg (priv_time self) (slog_call_time w) (slog_call_level c) (slog_call_message c)"

definition slog_call_notified ::
  "slog_t user_code \<Rightarrow> slog_t \<Rightarrow> slog_call \<Rightarrow> world \<Rightarrow> slog_t \<times> world" where
  "slog_call_notified code self c w =
     slog_send_logs_callback code self (slog_call_level c) (slog_call_time w)
       (slog_call_line self c w) (snd (get_millis w))"

text \<open>A call of one of the seven standalone logging functions, all of them formatted.\<close>

datatype idflog_call =
    Idflog_debug string | Idflog_info string | Idflog_error string | Idflog_verbose string
  | Idflog_warning string | Idflog_wtf string | Idflog_log idflog_level_t string

fun idflog_run ::
  "statics user_code \<Rightarrow> statics \<Rightarrow> idflog_call \<Rightarrow> world \<Rightarrow> statics \<times> world" where
  "idflog_run code g (Idflog_debug expansion) w = idflog_debug code g expansion w"
| "idflog_run code g (Idflog_info expansion) w = idflog_info code g expansion w"
| "idflog_run code g (Idflog_error expansion) w = idflog_error code g expansion w"
| "idflog_run code g (Idflog_verbose expansion) w = idflog_verbose code g expansion w"
| "idflog_run code g (Idflog_warning expansion) w = idflog_warning code g expansion w"
| "idflog_run code g (Idflog_wtf expansion) w = idflog_wtf code g expansion w"
| "idflog_run code g (Idflog_log level expansion) w = idflog_log code g level expansion w"

fun idflog_call_level :: "idflog_call \<Rightarrow> idflog_level_t" where
  "idflog_call_level (Idflog_debug expansion) = IDFLOG_DEBUG"
| "idflog_call_level (Idflog_info expansion) = IDFLOG_INFO"
| "idflog_call_level (Idflog_error expansion) = IDFLOG_ERROR"
| "idflog_call_level (Idflog_verbose expansion) = IDFLOG_VERBOSE"
| "idflog_call_level (Idflog_warning expansion) = IDFLOG_WARNING"
| "idflog_call_level (Idflog_wtf expansion) = IDFLOG_WTF"
| "idflog_call_level (Idflog_log level expansion) = level"

fun idflog_call_message :: "idflog_call \<Rightarrow> string" where
  "idflog_call_message (Idflog_debug expansion) = take 255 expansion"
| "idflog_call_message (Idflog_info expansion) = take 255 expansion"
| "idflog_call_message (Idflog_error expansion) = take 255 expansion"
| "idflog_call_message (Idflog_verbose expansion) = take 255 expansion"
| "idflog_call_message (Idflog_warning expansion) = take 255 expansion"
| "idflog_call_message (Idflog_wtf expansion) = take 255 expansion"
| "idflog_call_message (Idflog_log level expansion) = take 255 expansion"

text \<open>
  For a standalone call with file-scope variables \<open>g\<close> in world \<open>w\<close>: the timestamp it
  reads, the variables and world in which its callback statement ends, and the line its
  console write renders, which depends on the show-time flag read then.
\<close>

definition idflog_call_time :: "world \<Rightarrow> ulong" where
  "idflog_call_time w = fst (get_timestamp_ms w)"

definition idflog_call_notified ::
  "statics user_code \<Rightarrow> statics \<Rightarrow> idflog_call \<Rightarrow> world \<Rightarrow> statics \<times> world" where
  "idflog_call_notified code g c w =
     send_logs_callback code g (idflog_call_level c) (idflog_call_time w)
       (idflog_call_message c) (snd (get_timestamp_ms w))"

definition idflog_call_line :: "bool \<Rightarrow> idflog_call \<Rightarrow> world \<Rightarrow> string" where
  "idflog_call_line show_t c w =
     send_logs_text show_t (idflog_call_time w) (idflog_call_level c) (idflog_call_message c)"

text \<open>The standalone function and the instance method that log alike.\<close>

fun as_slog_call :: "idflog_call \<Rightarrow> slog_call" where
  "as_slog_call (Idflog_debug expansion) = Slog_d_format expansion"
| "as_slog_call (Idflog_info expansion) = Slog_i_format expansion"
| "as_slog_call (Idflog_error expansion) = Slog_e_format expansion"
| "as_slog_call (Idflog_verbose expansion) = Slog_v_format expansion"
| "as_slog_call (Idflog_warning expansion) = Slog_w_format expansion"
| "as_slog_call (Idflog_wtf expansion) = Slog_wtf_format expansion"
| "as_slog_call (Idflog_log level expansion) = Slog_log_format level expansion"

section \<open>Observations\<close>

text \<open>The seventeen method fields of an instance, in the order of the struct.\<close>

definition slog_methods :: "slog_t \<Rightarrow> slog_fn option list" where
  "slog_methods s =
     [m_set_print s, m_show_time s, m_set_log_callback s,
      m_d s, m_d_format s, m_e s, m_e_format s, m_i s, m_i_format s,
      m_v s, m_v_format s, m_w s, m_w_format s, m_wtf s, m_wtf_format s,
      m_log s, m_log_format s]"

text \<open>
  An event without its text: which sink was reached, and for a callback with which
  pointer, level and timestamp.
\<close>

fun erase_text :: "event \<Rightarrow> event" where
  "erase_text (Callback cb level t s) = Callback cb level t []"
| "erase_text (Printf s) = Printf []"
| "erase_text (Esp_logi tag s) = Esp_logi tag []"

section \<open>Concrete inputs\<close>

text \<open>
  The file-scope variables at program start: the three static variables carry their
  initialisers, the global instance is zero-filled.
\<close>

definition slog_zero :: slog_t where
  "slog_zero =
     \<lparr>priv_print = False, priv_time = False, logging_callback = None,
      m_set_print = None, m_show_time = None, m_set_log_callback = None,
      m_d = None, m_d_format = None, m_e = None, m_e_format = None,
      m_i = None, m_i_format = None, m_v = None, m_v_format = None,
      m_w = None, m_w_format = None, m_wtf = None, m_wtf_format = None,
      m_log = None, m_log_format = None\<rparr>"

definition statics_start :: statics where
  "statics_start =
     \<lparr>print_enabled = True, show_time_enabled = True, log_callback = None,
      slog = slog_zero\<rparr>"

text \<open>
  Three callbacks. One touches neither the logger nor the clock; the other two call the
  print setter of their surface, on the instance the call was made on and on the
  standalone variables.
\<close>

definition cb_idle :: "'c user_code" where
  "cb_idle cb level t s st = st"

definition cb_slog_set_print :: "bool \<Rightarrow> slog_t user_code" where
  "cb_slog_set_print state cb level t s st = (slog_set_print (fst st) state, snd st)"

definition cb_idflog_set_print :: "bool \<Rightarrow> statics user_code" where
  "cb_idflog_set_print state cb level t s st = (idflog_set_print (fst st) state, snd st)"

text \<open>A world whose clock always reads 1 s 234567 us, that is 1234 ms.\<close>

definition world0 :: world where
  "world0 = \<lparr>clock = (\<lambda>k. \<lparr>tv_sec = 1, tv_usec = 234567\<rparr>), reads = 0, out = []\<rparr>"

section \<open>Facts about the clock, the dispatchers and the formats\<close>

lemma fmt_nat_1234: "fmt_nat 1234 = ''1234''"
  by (simp add: fmt_nat.simps digit_def)

lemma get_millis_eq:
  "get_millis w =
     (word_of_int (tv_sec (clock w (reads w)) * 1000 + c_div (tv_usec (clock w (reads w))) 1000),
      w\<lparr>reads := Suc (reads w)\<rparr>)"
  by (simp add: get_millis_def gettimeofday_def)

lemma get_timestamp_ms_eq: "get_timestamp_ms w = get_millis w"
  by (simp add: get_timestamp_ms_def get_millis_def)

lemma get_millis_world0: "get_millis world0 = (1234, world0\<lparr>reads := 1\<rparr>)"
  by (simp add: get_millis_def gettimeofday_def world0_def c_div_def)

lemma call_time_world0: "slog_call_time world0 = 1234 \<and> idflog_call_time world0 = 1234"
  by (simp add: slog_call_time_def idflog_call_time_def get_timestamp_ms_eq get_millis_world0)

lemma out_world0: "out world0 = [] \<and> out (world0\<lparr>reads := n\<rparr>) = []"
  by (simp add: world0_def)

lemma slog_init_flags:
  "priv_print (slog_init s) \<and> priv_time (slog_init s) \<and> logging_callback (slog_init s) = None"
  by (simp add: slog_init_def)

lemma slog_send_logs_eq:
  "slog_send_logs code self level message w =
     slog_send_logs_print
       (slog_send_logs_callback code self level (fst (get_millis w))
          (slog_msg (priv_time self) (fst (get_millis w)) level message) (snd (get_millis w)))
       (slog_msg (priv_time self) (fst (get_millis w)) level message)"
  by (simp add: slog_send_logs_def Let_def split: prod.splits)

lemma send_logs_eq:
  "send_logs code g level message w =
     send_logs_print
       (send_logs_callback code g level (fst (get_timestamp_ms w)) message
          (snd (get_timestamp_ms w)))
       (fst (get_timestamp_ms w)) level message"
  by (simp add: send_logs_def split: prod.splits)

lemma slog_run_eq:
  "slog_run code self c w =
     slog_send_logs_print (slog_call_notified code self c w) (slog_call_line self c w)"
  by (cases c)
     (simp_all add: slog_send_logs_eq slog_call_notified_def slog_call_line_def
        slog_call_time_def vsnprintf_def
        slog_d_def slog_d_format_def slog_e_def slog_e_format_def slog_i_def slog_i_format_def
        slog_v_def slog_v_format_def slog_w_def slog_w_format_def slog_wtf_def
        slog_wtf_format_def slog_log_def slog_log_format_def)

lemma idflog_run_eq:
  "idflog_run code g c w =
     send_logs_print (idflog_call_notified code g c w) (idflog_call_time w)
       (idflog_call_level c) (idflog_call_message c)"
  by (cases c)
     (simp_all add: send_logs_eq idflog_call_notified_def idflog_call_time_def vsnprintf_def
        idflog_debug_def idflog_info_def idflog_error_def idflog_verbose_def
        idflog_warning_def idflog_wtf_def idflog_log_def)

declare slog_run.simps [simp del] idflog_run.simps [simp del]

lemma world0_reads: "reads world0 = 0"
  by (simp add: world0_def)

lemma slog_call_notified_None:
  "logging_callback self = None \<Longrightarrow>
     slog_call_notified code self c w = (self, w\<lparr>reads := Suc (reads w)\<rparr>)"
  by (simp add: slog_call_notified_def slog_send_logs_callback_def get_millis_eq)

lemma slog_call_notified_Some:
  "logging_callback self = Some cb \<Longrightarrow>
     slog_call_notified code self c w =
       code cb (slog_call_level c) (slog_call_time w) (slog_call_line self c w)
         (self, emit (Callback cb (slog_call_level c) (slog_call_time w) (slog_call_line self c w))
                  (w\<lparr>reads := Suc (reads w)\<rparr>))"
  by (simp add: slog_call_notified_def slog_send_logs_callback_def get_millis_eq)

lemma idflog_call_notified_None:
  "log_callback g = None \<Longrightarrow>
     idflog_call_notified code g c w = (g, w\<lparr>reads := Suc (reads w)\<rparr>)"
  by (simp add: idflog_call_notified_def send_logs_callback_def get_timestamp_ms_eq get_millis_eq)

lemma idflog_call_notified_Some:
  "log_callback g = Some cb \<Longrightarrow>
     idflog_call_notified code g c w =
       code cb (idflog_call_level c) (idflog_call_time w) (idflog_call_message c)
         (g, emit (Callback cb (idflog_call_level c) (idflog_call_time w) (idflog_call_message c))
               (w\<lparr>reads := Suc (reads w)\<rparr>))"
  by (simp add: idflog_call_notified_def send_logs_callback_def get_timestamp_ms_eq get_millis_eq)

lemma slog_send_logs_print_simps:
  "fst (slog_send_logs_print st msg) = fst st"
  "reads (snd (slog_send_logs_print st msg)) = reads (snd st)"
  "out (snd (slog_send_logs_print st msg)) =
     out (snd st) @ (if priv_print (fst st) then [Printf msg] else [])"
  by (simp_all add: slog_send_logs_print_def emit_def split: prod.splits)

lemma send_logs_print_simps:
  "fst (send_logs_print st t level message) = fst st"
  "reads (snd (send_logs_print st t level message)) = reads (snd st)"
  "out (snd (send_logs_print st t level message)) =
     out (snd st)
     @ (if print_enabled (fst st)
        then [Printf (send_logs_text (show_time_enabled (fst st)) t level message)]
        else [])"
  by (simp_all add: send_logs_print_def emit_def split: prod.splits)

lemma emit_simps:
  "out (emit ev w) = out w @ [ev]"
  "reads (emit ev w) = reads w"
  "clock (emit ev w) = clock w"
  by (simp_all add: emit_def)

lemma fmt_nat_length: "n < 10 ^ Suc k \<Longrightarrow> length (fmt_nat n) \<le> Suc k"
proof (induction k arbitrary: n)
  case 0
  then show ?case by (simp add: fmt_nat.simps)
next
  case (Suc k)
  show ?case
  proof (cases "n < 10")
    case True
    then show ?thesis by (simp add: fmt_nat.simps)
  next
    case False
    from Suc.prems have "n div 10 < 10 ^ Suc k" by simp
    then have "length (fmt_nat (n div 10)) \<le> Suc k" by (rule Suc.IH)
    with False show ?thesis by (subst fmt_nat.simps) simp
  qed
qed

lemma fmt_lu_length: "length (fmt_lu t) \<le> 10"
proof -
  have "unat t < 2 ^ 32" using unsigned_less [of t] by simp
  then have "unat t < 10 ^ Suc 9" by simp
  then show ?thesis unfolding fmt_lu_def using fmt_nat_length by fastforce
qed

lemma slog_level_name_length: "length (slog_level_name level) \<le> 9"
  by (simp add: slog_level_name_def)

lemma slog_level_name_brackets: "slog_level_name level = ''['' @ get_level_name level @ '']''"
  by (simp add: slog_level_name_def get_level_name_def)


lemma take_append_fit: "length a \<le> n \<Longrightarrow> take n (a @ b) = a @ take (n - length a) b"
  by simp

lemma snprintf_length: "length (snprintf cap expansion) \<le> cap - 1"
  by (simp add: snprintf_def)

lemma slog_msg_length: "length (slog_msg show_t time level message) \<le> 511"
proof -
  have "length (snprintf 512 e) \<le> 511" for e
    using snprintf_length [of 512 e] by simp
  then show ?thesis by (simp add: slog_msg_def)
qed

lemma slog_msg_time_head:
  "slog_msg True time level message =
     (fmt_lu time @ '' '' @ slog_level_name level)
     @ take (511 - length (fmt_lu time @ '' '' @ slog_level_name level))
         ('': '' @ message @ [CHR 0x0A])"
proof -
  have "length (fmt_lu time @ '' '' @ slog_level_name level) \<le> 511"
    using fmt_lu_length [of time] slog_level_name_length [of level] by simp
  then have "take 511 ((fmt_lu time @ '' '' @ slog_level_name level)
                 @ ('': '' @ message @ [CHR 0x0A])) =
             (fmt_lu time @ '' '' @ slog_level_name level)
             @ take (511 - length (fmt_lu time @ '' '' @ slog_level_name level))
                 ('': '' @ message @ [CHR 0x0A])"
    by (rule take_append_fit)
  then show ?thesis by (simp add: slog_msg_def snprintf_def)
qed

lemma slog_msg_notime_head:
  "slog_msg False time level message =
     slog_level_name level
     @ take (511 - length (slog_level_name level)) ('': '' @ message @ [CHR 0x0A])"
proof -
  have "length (slog_level_name level) \<le> 511"
    using slog_level_name_length [of level] by simp
  then have "take 511 (slog_level_name level @ ('': '' @ message @ [CHR 0x0A])) =
             slog_level_name level
             @ take (511 - length (slog_level_name level)) ('': '' @ message @ [CHR 0x0A])"
    by (rule take_append_fit)
  then show ?thesis by (simp add: slog_msg_def snprintf_def)
qed

lemma slog_msg_contains_tag: "sublist (slog_level_name level) (slog_msg show_t time level message)"
proof (cases show_t)
  case True
  have "sublist (slog_level_name level)
          ((fmt_lu time @ '' '') @ slog_level_name level
           @ take (511 - length (fmt_lu time @ '' '' @ slog_level_name level))
               ('': '' @ message @ [CHR 0x0A]))"
    by (rule sublist_appendI)
  with True show ?thesis by (simp add: slog_msg_time_head)
next
  case False
  have "sublist (slog_level_name level)
          ([] @ slog_level_name level
           @ take (511 - length (slog_level_name level)) ('': '' @ message @ [CHR 0x0A]))"
    by (rule sublist_appendI)
  with False show ?thesis by (simp add: slog_msg_notime_head)
qed

lemma send_logs_text_contains_tag:
  "sublist (''['' @ get_level_name level @ '']'') (send_logs_text show_t time level message)"
proof (cases show_t)
  case True
  have "sublist (''['' @ get_level_name level @ '']'')
          ((''['' @ fmt_lu time @ ''] '') @ (''['' @ get_level_name level @ '']'')
           @ ('' '' @ message @ [CHR 0x0A]))"
    by (rule sublist_appendI)
  with True show ?thesis by (simp add: send_logs_text_def)
next
  case False
  have "sublist (''['' @ get_level_name level @ '']'')
          ([] @ (''['' @ get_level_name level @ '']'') @ ('' '' @ message @ [CHR 0x0A]))"
    by (rule sublist_appendI)
  with False show ?thesis by (simp add: send_logs_text_def)
qed

section \<open>Configuration\<close>

text \<open>
  C10. Each setter writes its own configuration field and nothing else. On the instance
  surface the other two configuration fields and the seventeen method fields keep their
  values; on the standalone surface the other two static variables and the global
  instance keep theirs. Putting the old value of the written field back gives the old
  state.
\<close>

theorem setters_write_own_field:
  "priv_print (slog_set_print self b) = b
   \<and> priv_time (slog_set_print self b) = priv_time self
   \<and> logging_callback (slog_set_print self b) = logging_callback self
   \<and> slog_methods (slog_set_print self b) = slog_methods self
   \<and> (slog_set_print self b)\<lparr>priv_print := priv_print self\<rparr> = self
   \<and> priv_time (slog_show_time self b) = b
   \<and> priv_print (slog_show_time self b) = priv_print self
   \<and> logging_callback (slog_show_time self b) = logging_callback self
   \<and> slog_methods (slog_show_time self b) = slog_methods self
   \<and> (slog_show_time self b)\<lparr>priv_time := priv_time self\<rparr> = self
   \<and> logging_callback (slog_set_log_callback self c) = c
   \<and> priv_print (slog_set_log_callback self c) = priv_print self
   \<and> priv_time (slog_set_log_callback self c) = priv_time self
   \<and> slog_methods (slog_set_log_callback self c) = slog_methods self
   \<and> (slog_set_log_callback self c)\<lparr>logging_callback := logging_callback self\<rparr> = self
   \<and> print_enabled (idflog_set_print g b) = b
   \<and> show_time_enabled (idflog_set_print g b) = show_time_enabled g
   \<and> log_callback (idflog_set_print g b) = log_callback g
   \<and> slog (idflog_set_print g b) = slog g
   \<and> (idflog_set_print g b)\<lparr>print_enabled := print_enabled g\<rparr> = g
   \<and> show_time_enabled (idflog_show_time g b) = b
   \<and> print_enabled (idflog_show_time g b) = print_enabled g
   \<and> log_callback (idflog_show_time g b) = log_callback g
   \<and> slog (idflog_show_time g b) = slog g
   \<and> (idflog_show_time g b)\<lparr>show_time_enabled := show_time_enabled g\<rparr> = g
   \<and> log_callback (idflog_set_callback g c) = c
   \<and> print_enabled (idflog_set_callback g c) = print_enabled g
   \<and> show_time_enabled (idflog_set_callback g c) = show_time_enabled g
   \<and> slog (idflog_set_callback g c) = slog g
   \<and> (idflog_set_callback g c)\<lparr>log_callback := log_callback g\<rparr> = g"
proof -
  have i1: "priv_print (slog_set_print self b) = b
   \<and> priv_time (slog_set_print self b) = priv_time self
   \<and> logging_callback (slog_set_print self b) = logging_callback self
   \<and> slog_methods (slog_set_print self b) = slog_methods self
   \<and> (slog_set_print self b)\<lparr>priv_print := priv_print self\<rparr> = self"
    by (simp add: slog_set_print_def slog_methods_def)
  have i2: "priv_time (slog_show_time self b) = b
   \<and> priv_print (slog_show_time self b) = priv_print self
   \<and> logging_callback (slog_show_time self b) = logging_callback self
   \<and> slog_methods (slog_show_time self b) = slog_methods self
   \<and> (slog_show_time self b)\<lparr>priv_time := priv_time self\<rparr> = self"
    by (simp add: slog_show_time_def slog_methods_def)
  have i3: "logging_callback (slog_set_log_callback self c) = c
   \<and> priv_print (slog_set_log_callback self c) = priv_print self
   \<and> priv_time (slog_set_log_callback self c) = priv_time self
   \<and> slog_methods (slog_set_log_callback self c) = slog_methods self
   \<and> (slog_set_log_callback self c)\<lparr>logging_callback := logging_callback self\<rparr> = self"
    by (simp add: slog_set_log_callback_def slog_methods_def)
  have g1: "print_enabled (idflog_set_print g b) = b
   \<and> show_time_enabled (idflog_set_print g b) = show_time_enabled g
   \<and> log_callback (idflog_set_print g b) = log_callback g
   \<and> slog (idflog_set_print g b) = slog g
   \<and> (idflog_set_print g b)\<lparr>print_enabled := print_enabled g\<rparr> = g"
    by (simp add: idflog_set_print_def)
  have g2: "show_time_enabled (idflog_show_time g b) = b
   \<and> print_enabled (idflog_show_time g b) = print_enabled g
   \<and> log_callback (idflog_show_time g b) = log_callback g
   \<and> slog (idflog_show_time g b) = slog g
   \<and> (idflog_show_time g b)\<lparr>show_time_enabled := show_time_enabled g\<rparr> = g"
    by (simp add: idflog_show_time_def)
  have g3: "log_callback (idflog_set_callback g c) = c
   \<and> print_enabled (idflog_set_callback g c) = print_enabled g
   \<and> show_time_enabled (idflog_set_callback g c) = show_time_enabled g
   \<and> slog (idflog_set_callback g c) = slog g
   \<and> (idflog_set_callback g c)\<lparr>log_callback := log_callback g\<rparr> = g"
    by (simp add: idflog_set_callback_def)
  from i1 i2 i3 g1 g2 g3 show ?thesis by blast
qed

theorem setters_write_own_field_witness:
  "priv_print (slog_set_print (slog_init slog_zero) False) = False
   \<and> priv_time (slog_set_print (slog_init slog_zero) False) = True
   \<and> logging_callback (slog_set_print (slog_init slog_zero) False) = None
   \<and> slog_methods (slog_set_print (slog_init slog_zero) False) =
       [Some FN_slog_set_print, Some FN_slog_show_time, Some FN_slog_set_log_callback,
        Some FN_slog_d, Some FN_slog_d_format, Some FN_slog_e, Some FN_slog_e_format,
        Some FN_slog_i, Some FN_slog_i_format, Some FN_slog_v, Some FN_slog_v_format,
        Some FN_slog_w, Some FN_slog_w_format, Some FN_slog_wtf, Some FN_slog_wtf_format,
        Some FN_slog_log, Some FN_slog_log_format]
   \<and> log_callback (idflog_set_callback statics_start (Some 7)) = Some 7
   \<and> print_enabled (idflog_set_callback statics_start (Some 7)) = True
   \<and> show_time_enabled (idflog_set_callback statics_start (Some 7)) = True
   \<and> slog (idflog_set_callback statics_start (Some 7)) = slog_zero"
  using setters_write_own_field [of "slog_init slog_zero" False "Some 7" statics_start]
  by (simp add: slog_init_def slog_methods_def statics_start_def)

text \<open>
  C2 as stated fails for \<^verbatim>\<open>idflog_init\<close>: after \<^verbatim>\<open>idflog_set_print(false)\<close>,
  \<^verbatim>\<open>idflog_show_time(false)\<close> and \<^verbatim>\<open>idflog_set_callback(cb)\<close>, a call of \<^verbatim>\<open>idflog_init\<close>
  leaves the standalone configuration at print disabled, timestamps hidden and \<open>cb\<close>
  registered.
\<close>

theorem idflog_init_keeps_statics_counterexample:
  "print_enabled
     (fst (idflog_init
        (idflog_set_callback (idflog_show_time (idflog_set_print statics_start False) False)
           (Some 7)) world0)) = False
   \<and> show_time_enabled
     (fst (idflog_init
        (idflog_set_callback (idflog_show_time (idflog_set_print statics_start False) False)
           (Some 7)) world0)) = False
   \<and> log_callback
     (fst (idflog_init
        (idflog_set_callback (idflog_show_time (idflog_set_print statics_start False) False)
           (Some 7)) world0)) = Some 7"
  by (simp add: idflog_init_def idflog_set_callback_def idflog_show_time_def
        idflog_set_print_def statics_start_def)

text \<open>
  C2, amended. \<^verbatim>\<open>slog_init\<close> is idempotent and, whatever the instance held
  before, leaves it with print enabled, timestamps shown and no callback (and the same
  seventeen methods). \<^verbatim>\<open>idflog_init\<close> does this for the global instance \<^verbatim>\<open>slog\<close> and
  nothing else to the configuration: the three static variables of the standalone
  surface keep the values the setters gave them. Their values at program start, before
  any setter, are the same defaults, from their initialisers.
\<close>

theorem initialize_resets:
  "slog_init (slog_init s) = slog_init s
   \<and> slog_init s = slog_init s'
   \<and> priv_print (slog_init s) \<and> priv_time (slog_init s)
   \<and> logging_callback (slog_init s) = None
   \<and> slog (fst (idflog_init g w)) = slog_init (slog g)
   \<and> print_enabled (fst (idflog_init g w)) = print_enabled g
   \<and> show_time_enabled (fst (idflog_init g w)) = show_time_enabled g
   \<and> log_callback (fst (idflog_init g w)) = log_callback g
   \<and> fst (idflog_init (fst (idflog_init g w)) w') = fst (idflog_init g w)
   \<and> print_enabled statics_start \<and> show_time_enabled statics_start
   \<and> log_callback statics_start = None"
proof -
  have same: "slog_init a = slog_init b" for a b :: slog_t
    by (cases a, cases b) (simp add: slog_init_def)
  have idem: "slog_init (slog_init s) = slog_init s"
    by (rule same)
  have again: "fst (idflog_init (fst (idflog_init g w)) w') = fst (idflog_init g w)"
    using same [of "slog_init (slog g)" "slog g"] by (simp add: idflog_init_def)
  from idem same [of s s'] again slog_init_flags [of s] show ?thesis
    by (simp add: idflog_init_def statics_start_def)
qed

theorem initialize_resets_witness:
  "priv_print (slog_init (slog_set_print (slog_init slog_zero) False))
   \<and> slog_init (slog_set_print (slog_init slog_zero) False) = slog_init slog_zero
   \<and> print_enabled (fst (idflog_init (idflog_set_print statics_start False) world0)) = False
   \<and> priv_print (slog (fst (idflog_init (idflog_set_print statics_start False) world0)))"
proof -
  let ?s = "slog_set_print (slog_init slog_zero) False"
  let ?g = "idflog_set_print statics_start False"
  note t = initialize_resets [of ?s slog_zero ?g world0 world0]
  have t1: "priv_print (slog_init ?s)" using t by blast
  have t2: "slog_init ?s = slog_init slog_zero" using t by blast
  have t3: "print_enabled (fst (idflog_init ?g world0)) = print_enabled ?g" using t by blast
  have t4: "slog (fst (idflog_init ?g world0)) = slog_init (slog ?g)" using t by blast
  have p: "priv_print (slog_init (slog ?g))" by (simp add: slog_init_def)
  have e: "print_enabled ?g = False" by (simp add: idflog_set_print_def)
  from t1 t2 t3 t4 p e show ?thesis by simp
qed

section \<open>Bounded buffers\<close>

lemma vsnprintf_length: "length (vsnprintf cap expansion) \<le> cap - 1"
  by (simp add: vsnprintf_def)

lemma slog_msg_fits:
  "slog_msg True time level message =
     snprintf 512 (fmt_lu time @ '' '' @ slog_level_name level @ '': '' @ message @ [CHR 0x0A])
   \<and> slog_msg False time level message =
     snprintf 512 (slog_level_name level @ '': '' @ message @ [CHR 0x0A])"
  by (simp add: slog_msg_def)

lemma snprintf_fits: "length expansion < cap \<Longrightarrow> snprintf cap expansion = expansion"
  by (simp add: snprintf_def)




section \<open>Facts about a log call\<close>

lemma slog_run_out:
  "out (snd (slog_run code self c w)) =
     out (snd (slog_call_notified code self c w))
     @ (if priv_print (fst (slog_call_notified code self c w))
        then [Printf (slog_call_line self c w)] else [])"
  by (simp add: slog_run_eq slog_send_logs_print_simps)

lemma slog_run_reads:
  "reads (snd (slog_run code self c w)) = reads (snd (slog_call_notified code self c w))"
  by (simp add: slog_run_eq slog_send_logs_print_simps)

lemma slog_run_silent:
  "\<not> priv_print (fst (slog_call_notified code self c w)) \<Longrightarrow>
     slog_run code self c w = slog_call_notified code self c w"
  by (cases "slog_call_notified code self c w")
     (simp add: slog_run_eq slog_send_logs_print_def)

lemma slog_call_notified_idle:
  "logging_callback self = Some cb \<Longrightarrow> code cb = cb_idle cb \<Longrightarrow>
     slog_call_notified code self c w =
       (self, emit (Callback cb (slog_call_level c) (slog_call_time w) (slog_call_line self c w))
                (w\<lparr>reads := Suc (reads w)\<rparr>))"
  by (simp add: slog_call_notified_Some cb_idle_def)

lemma idflog_run_out:
  "out (snd (idflog_run code g c w)) =
     out (snd (idflog_call_notified code g c w))
     @ (if print_enabled (fst (idflog_call_notified code g c w))
        then [Printf (idflog_call_line
                        (show_time_enabled (fst (idflog_call_notified code g c w))) c w)]
        else [])"
  by (simp add: idflog_run_eq send_logs_print_simps idflog_call_line_def)

lemma idflog_run_reads:
  "reads (snd (idflog_run code g c w)) = reads (snd (idflog_call_notified code g c w))"
  by (simp add: idflog_run_eq send_logs_print_simps)

lemma idflog_run_silent:
  "\<not> print_enabled (fst (idflog_call_notified code g c w)) \<Longrightarrow>
     idflog_run code g c w = idflog_call_notified code g c w"
  by (cases "idflog_call_notified code g c w")
     (simp add: idflog_run_eq send_logs_print_def)

lemma idflog_call_notified_idle:
  "log_callback g = Some cb \<Longrightarrow> code cb = cb_idle cb \<Longrightarrow>
     idflog_call_notified code g c w =
       (g, emit (Callback cb (idflog_call_level c) (idflog_call_time w) (idflog_call_message c))
             (w\<lparr>reads := Suc (reads w)\<rparr>))"
  by (simp add: idflog_call_notified_Some cb_idle_def)

lemma slog_line_X:
  "slog_msg True 1234 IDFLOG_INFO ''X'' = ''1234 [INFO]: X\<newline>''
   \<and> slog_msg False 1234 IDFLOG_INFO ''X'' = ''[INFO]: X\<newline>''"
  by (simp add: slog_msg_def snprintf_def fmt_lu_def fmt_nat_1234 slog_level_name_def)

lemma send_logs_text_X:
  "send_logs_text True 1234 IDFLOG_INFO ''X'' = ''[1234] [INFO] X\<newline>''
   \<and> send_logs_text False 1234 IDFLOG_INFO ''X'' = ''[INFO] X\<newline>''"
  by (simp add: send_logs_text_def fmt_lu_def fmt_nat_1234 get_level_name_def)

lemma slog_call_line_X:
  "priv_time self \<Longrightarrow> slog_call_line self (Slog_i ''X'') world0 = ''1234 [INFO]: X\<newline>''"
  "\<not> priv_time self \<Longrightarrow> slog_call_line self (Slog_i ''X'') world0 = ''[INFO]: X\<newline>''"
  by (simp_all add: slog_call_line_def call_time_world0 slog_line_X)

lemma idflog_call_X:
  "idflog_call_line True (Idflog_info ''X'') world0 = ''[1234] [INFO] X\<newline>''"
  "idflog_call_line False (Idflog_info ''X'') world0 = ''[INFO] X\<newline>''"
  "idflog_call_message (Idflog_info ''X'') = ''X''"
  "idflog_call_level (Idflog_info ''X'') = IDFLOG_INFO"
  by (simp_all add: idflog_call_line_def call_time_world0 send_logs_text_X)

section \<open>Dispatch to the two sinks\<close>

text \<open>
  C6 as stated fails: the print flag is read when the callback has returned. With print
  disabled and a registered callback that calls the print setter with true,
  \<^verbatim>\<open>idflog_info("X")\<close> and \<^verbatim>\<open>slog.i(&slog, "X")\<close> each call the callback and then
  write to the console.
\<close>

theorem print_enabling_callback_counterexample:
  "out (snd (idflog_run (cb_idflog_set_print True)
               (idflog_set_callback (idflog_set_print statics_start False) (Some 7))
               (Idflog_info ''X'') world0)) =
     [Callback 7 IDFLOG_INFO 1234 ''X'', Printf ''[1234] [INFO] X\<newline>'']
   \<and> out (snd (slog_run (cb_slog_set_print True)
               (slog_set_log_callback (slog_set_print (slog_init slog_zero) False) (Some 7))
               (Slog_i ''X'') world0)) =
     [Callback 7 IDFLOG_INFO 1234 ''1234 [INFO]: X\<newline>'', Printf ''1234 [INFO]: X\<newline>'']"
proof -
  let ?g = "idflog_set_callback (idflog_set_print statics_start False) (Some 7)"
  let ?s = "slog_set_log_callback (slog_set_print (slog_init slog_zero) False) (Some 7)"
  have g: "log_callback ?g = Some 7"
    by (simp add: idflog_set_callback_def idflog_set_print_def statics_start_def)
  have g': "print_enabled (idflog_set_print ?g True)
            \<and> show_time_enabled (idflog_set_print ?g True)"
    by (simp add: idflog_set_callback_def idflog_set_print_def statics_start_def)
  have s: "logging_callback ?s = Some 7 \<and> priv_time ?s"
    by (simp add: slog_set_log_callback_def slog_set_print_def slog_init_def)
  have s': "priv_print (slog_set_print ?s True)"
    by (simp add: slog_set_print_def)
  have gn: "idflog_call_notified (cb_idflog_set_print True) ?g (Idflog_info ''X'') world0 =
              (idflog_set_print ?g True,
               emit (Callback 7 IDFLOG_INFO 1234 ''X'') (world0\<lparr>reads := Suc 0\<rparr>))"
    using idflog_call_notified_Some [of ?g 7 "cb_idflog_set_print True" "Idflog_info ''X''" world0] g
    by (simp add: cb_idflog_set_print_def call_time_world0 world0_reads)
  have sn: "slog_call_notified (cb_slog_set_print True) ?s (Slog_i ''X'') world0 =
              (slog_set_print ?s True,
               emit (Callback 7 IDFLOG_INFO 1234 ''1234 [INFO]: X\<newline>'')
                 (world0\<lparr>reads := Suc 0\<rparr>))"
    using slog_call_notified_Some [of ?s 7 "cb_slog_set_print True" "Slog_i ''X''" world0] s
    by (simp add: cb_slog_set_print_def slog_call_line_def call_time_world0 world0_reads
          slog_line_X)
  have a: "out (snd (idflog_run (cb_idflog_set_print True) ?g (Idflog_info ''X'') world0)) =
     [Callback 7 IDFLOG_INFO 1234 ''X'', Printf ''[1234] [INFO] X\<newline>'']"
    using g'
    by (simp add: idflog_run_out gn idflog_call_line_def call_time_world0 emit_simps out_world0
          send_logs_text_X)
  have b: "out (snd (slog_run (cb_slog_set_print True) ?s (Slog_i ''X'') world0)) =
     [Callback 7 IDFLOG_INFO 1234 ''1234 [INFO]: X\<newline>'', Printf ''1234 [INFO]: X\<newline>'']"
    using s s'
    by (simp add: slog_run_out sn slog_call_line_def call_time_world0 emit_simps out_world0
          slog_line_X)
  from a b show ?thesis by blast
qed

text \<open>
  C6, amended. The two sinks are gated independently, and the print flag is read when the
  callback has returned. With a callback registered and print disabled then (so with
  print disabled at entry and a callback that does not enable it), a log call reads the
  clock, invokes the callback once and does nothing more: no console write. With print
  enabled and no callback registered, a log call makes exactly one console write and
  invokes no callback. This holds for every logging entry point of both surfaces.
\<close>

theorem sinks_gated_independently:
  "(logging_callback self = Some cb \<and> \<not> priv_print (fst (slog_call_notified code self c w)) \<longrightarrow>
      slog_run code self c w =
        code cb (slog_call_level c) (slog_call_time w) (slog_call_line self c w)
          (self, emit (Callback cb (slog_call_level c) (slog_call_time w)
                         (slog_call_line self c w)) (w\<lparr>reads := Suc (reads w)\<rparr>)))
   \<and> (logging_callback self = Some cb \<and> \<not> priv_print self \<and> code cb = cb_idle cb \<longrightarrow>
      out (snd (slog_run code self c w)) =
        out w @ [Callback cb (slog_call_level c) (slog_call_time w) (slog_call_line self c w)])
   \<and> (logging_callback self = None \<and> priv_print self \<longrightarrow>
      out (snd (slog_run code self c w)) = out w @ [Printf (slog_call_line self c w)])
   \<and> (log_callback g = Some cb \<and> \<not> print_enabled (fst (idflog_call_notified code' g c' w)) \<longrightarrow>
      idflog_run code' g c' w =
        code' cb (idflog_call_level c') (idflog_call_time w) (idflog_call_message c')
          (g, emit (Callback cb (idflog_call_level c') (idflog_call_time w)
                      (idflog_call_message c')) (w\<lparr>reads := Suc (reads w)\<rparr>)))
   \<and> (log_callback g = Some cb \<and> \<not> print_enabled g \<and> code' cb = cb_idle cb \<longrightarrow>
      out (snd (idflog_run code' g c' w)) =
        out w @ [Callback cb (idflog_call_level c') (idflog_call_time w)
                   (idflog_call_message c')])
   \<and> (log_callback g = None \<and> print_enabled g \<longrightarrow>
      out (snd (idflog_run code' g c' w)) =
        out w @ [Printf (idflog_call_line (show_time_enabled g) c' w)])"
proof -
  have i1: "slog_run code self c w =
        code cb (slog_call_level c) (slog_call_time w) (slog_call_line self c w)
          (self, emit (Callback cb (slog_call_level c) (slog_call_time w)
                         (slog_call_line self c w)) (w\<lparr>reads := Suc (reads w)\<rparr>))"
    if "logging_callback self = Some cb \<and> \<not> priv_print (fst (slog_call_notified code self c w))"
    using that slog_run_silent [of code self c w] slog_call_notified_Some [of self cb code c w]
    by simp
  have i2: "out (snd (slog_run code self c w)) =
        out w @ [Callback cb (slog_call_level c) (slog_call_time w) (slog_call_line self c w)]"
    if "logging_callback self = Some cb \<and> \<not> priv_print self \<and> code cb = cb_idle cb"
    using that by (simp add: slog_run_out slog_call_notified_idle emit_simps)
  have i3: "out (snd (slog_run code self c w)) = out w @ [Printf (slog_call_line self c w)]"
    if "logging_callback self = None \<and> priv_print self"
    using that by (simp add: slog_run_out slog_call_notified_None)
  have s1: "idflog_run code' g c' w =
        code' cb (idflog_call_level c') (idflog_call_time w) (idflog_call_message c')
          (g, emit (Callback cb (idflog_call_level c') (idflog_call_time w)
                      (idflog_call_message c')) (w\<lparr>reads := Suc (reads w)\<rparr>))"
    if "log_callback g = Some cb \<and> \<not> print_enabled (fst (idflog_call_notified code' g c' w))"
    using that idflog_run_silent [of code' g c' w] idflog_call_notified_Some [of g cb code' c' w]
    by simp
  have s2: "out (snd (idflog_run code' g c' w)) =
        out w @ [Callback cb (idflog_call_level c') (idflog_call_time w)
                   (idflog_call_message c')]"
    if "log_callback g = Some cb \<and> \<not> print_enabled g \<and> code' cb = cb_idle cb"
    using that by (simp add: idflog_run_out idflog_call_notified_idle emit_simps)
  have s3: "out (snd (idflog_run code' g c' w)) =
        out w @ [Printf (idflog_call_line (show_time_enabled g) c' w)]"
    if "log_callback g = None \<and> print_enabled g"
    using that by (simp add: idflog_run_out idflog_call_notified_None)
  from i1 i2 i3 s1 s2 s3 show ?thesis by blast
qed

theorem sinks_gated_independently_witness:
  "logging_callback (slog_set_log_callback (slog_set_print (slog_init slog_zero) False) (Some 7))
     = Some 7
   \<and> \<not> priv_print (slog_set_log_callback (slog_set_print (slog_init slog_zero) False) (Some 7))
   \<and> out (snd (slog_run cb_idle
               (slog_set_log_callback (slog_set_print (slog_init slog_zero) False) (Some 7))
               (Slog_i ''X'') world0)) =
       [Callback 7 IDFLOG_INFO 1234 ''1234 [INFO]: X\<newline>'']
   \<and> logging_callback (slog_init slog_zero) = None \<and> priv_print (slog_init slog_zero)
   \<and> out (snd (slog_run cb_idle (slog_init slog_zero) (Slog_i ''X'') world0)) =
       [Printf ''1234 [INFO]: X\<newline>'']
   \<and> log_callback (idflog_set_callback (idflog_set_print statics_start False) (Some 7)) = Some 7
   \<and> \<not> print_enabled (idflog_set_callback (idflog_set_print statics_start False) (Some 7))
   \<and> out (snd (idflog_run cb_idle
               (idflog_set_callback (idflog_set_print statics_start False) (Some 7))
               (Idflog_info ''X'') world0)) =
       [Callback 7 IDFLOG_INFO 1234 ''X'']
   \<and> log_callback statics_start = None \<and> print_enabled statics_start
   \<and> out (snd (idflog_run cb_idle statics_start (Idflog_info ''X'') world0)) =
       [Printf ''[1234] [INFO] X\<newline>'']"
proof -
  let ?s1 = "slog_set_log_callback (slog_set_print (slog_init slog_zero) False) (Some 7)"
  let ?s2 = "slog_init slog_zero"
  let ?g1 = "idflog_set_callback (idflog_set_print statics_start False) (Some 7)"
  let ?g2 = "statics_start"
  have s1: "logging_callback ?s1 = Some 7 \<and> \<not> priv_print ?s1 \<and> priv_time ?s1"
    by (simp add: slog_set_log_callback_def slog_set_print_def slog_init_def)
  have s2: "logging_callback ?s2 = None \<and> priv_print ?s2 \<and> priv_time ?s2"
    by (simp add: slog_init_def)
  have g1: "log_callback ?g1 = Some 7 \<and> \<not> print_enabled ?g1"
    by (simp add: idflog_set_callback_def idflog_set_print_def statics_start_def)
  have g2: "log_callback ?g2 = None \<and> print_enabled ?g2 \<and> show_time_enabled ?g2"
    by (simp add: statics_start_def)
  have idle: "(cb_idle :: slog_t user_code) 7 = cb_idle 7
              \<and> (cb_idle :: statics user_code) 7 = cb_idle 7"
    by simp
  note t1 = sinks_gated_independently
    [of ?s1 7 cb_idle "Slog_i ''X''" world0 ?g1 cb_idle "Idflog_info ''X''"]
  note t2 = sinks_gated_independently
    [of ?s2 7 cb_idle "Slog_i ''X''" world0 ?g2 cb_idle "Idflog_info ''X''"]
  have a: "out (snd (slog_run cb_idle ?s1 (Slog_i ''X'') world0)) =
             out world0 @ [Callback 7 (slog_call_level (Slog_i ''X'')) (slog_call_time world0)
                             (slog_call_line ?s1 (Slog_i ''X'') world0)]"
    using t1 s1 idle by blast
  have b: "out (snd (slog_run cb_idle ?s2 (Slog_i ''X'') world0)) =
             out world0 @ [Printf (slog_call_line ?s2 (Slog_i ''X'') world0)]"
    using t2 s2 by blast
  have c: "out (snd (idflog_run cb_idle ?g1 (Idflog_info ''X'') world0)) =
             out world0 @ [Callback 7 (idflog_call_level (Idflog_info ''X''))
                             (idflog_call_time world0) (idflog_call_message (Idflog_info ''X''))]"
    using t1 g1 idle by blast
  have d: "out (snd (idflog_run cb_idle ?g2 (Idflog_info ''X'') world0)) =
             out world0 @ [Printf (idflog_call_line (show_time_enabled ?g2) (Idflog_info ''X'')
                             world0)]"
    using t2 g2 by blast
  from a b c d s1 s2 g1 g2 show ?thesis
    by (simp add: out_world0 call_time_world0 slog_call_line_X idflog_call_X)
qed

text \<open>
  C7 as stated fails: the console write is decided when the callback has returned. With a
  callback registered and print enabled, a callback that calls the print setter with
  false leaves \<^verbatim>\<open>idflog_info("X")\<close> and \<^verbatim>\<open>slog.i(&slog, "X")\<close> with the callback's call
  as their only event: no console write follows it.
\<close>

theorem print_disabling_callback_counterexample:
  "out (snd (idflog_run (cb_idflog_set_print False)
               (idflog_set_callback statics_start (Some 7)) (Idflog_info ''X'') world0)) =
     [Callback 7 IDFLOG_INFO 1234 ''X'']
   \<and> out (snd (slog_run (cb_slog_set_print False)
               (slog_set_log_callback (slog_init slog_zero) (Some 7)) (Slog_i ''X'') world0)) =
     [Callback 7 IDFLOG_INFO 1234 ''1234 [INFO]: X\<newline>'']"
proof -
  let ?g = "idflog_set_callback statics_start (Some 7)"
  let ?s = "slog_set_log_callback (slog_init slog_zero) (Some 7)"
  have g: "log_callback ?g = Some 7 \<and> print_enabled ?g"
    by (simp add: idflog_set_callback_def statics_start_def)
  have g': "\<not> print_enabled (idflog_set_print ?g False)"
    by (simp add: idflog_set_print_def)
  have s: "logging_callback ?s = Some 7 \<and> priv_time ?s \<and> priv_print ?s"
    by (simp add: slog_set_log_callback_def slog_init_def)
  have s': "\<not> priv_print (slog_set_print ?s False)"
    by (simp add: slog_set_print_def)
  have gn: "idflog_call_notified (cb_idflog_set_print False) ?g (Idflog_info ''X'') world0 =
              (idflog_set_print ?g False,
               emit (Callback 7 IDFLOG_INFO 1234 ''X'') (world0\<lparr>reads := Suc 0\<rparr>))"
    using idflog_call_notified_Some [of ?g 7 "cb_idflog_set_print False" "Idflog_info ''X''" world0] g
    by (simp add: cb_idflog_set_print_def call_time_world0 world0_reads idflog_call_X)
  have sn: "slog_call_notified (cb_slog_set_print False) ?s (Slog_i ''X'') world0 =
              (slog_set_print ?s False,
               emit (Callback 7 IDFLOG_INFO 1234 ''1234 [INFO]: X\<newline>'')
                 (world0\<lparr>reads := Suc 0\<rparr>))"
    using slog_call_notified_Some [of ?s 7 "cb_slog_set_print False" "Slog_i ''X''" world0] s
    by (simp add: cb_slog_set_print_def slog_call_line_X call_time_world0 world0_reads)
  have a: "out (snd (idflog_run (cb_idflog_set_print False) ?g (Idflog_info ''X'') world0)) =
     [Callback 7 IDFLOG_INFO 1234 ''X'']"
    using g' by (simp add: idflog_run_out gn emit_simps out_world0)
  have b: "out (snd (slog_run (cb_slog_set_print False) ?s (Slog_i ''X'') world0)) =
     [Callback 7 IDFLOG_INFO 1234 ''1234 [INFO]: X\<newline>'']"
    using s' by (simp add: slog_run_out sn emit_simps out_world0)
  from a b show ?thesis by blast
qed

text \<open>
  C7, amended. Whenever a callback is registered, every log call of both surfaces invokes
  it first and only then tests the print flag: the console write, made when print is
  enabled as the callback returns, comes after everything the callback did. With both
  sinks active and a callback that leaves the logger alone, the events of the call are
  the callback's call followed by the console write; a callback that disables print
  suppresses that call's console write.
\<close>

theorem callback_before_console:
  "(logging_callback self = Some cb \<longrightarrow>
      slog_call_notified code self c w =
        code cb (slog_call_level c) (slog_call_time w) (slog_call_line self c w)
          (self, emit (Callback cb (slog_call_level c) (slog_call_time w)
                         (slog_call_line self c w)) (w\<lparr>reads := Suc (reads w)\<rparr>))
      \<and> out (snd (slog_run code self c w)) =
          out (snd (slog_call_notified code self c w))
          @ (if priv_print (fst (slog_call_notified code self c w))
             then [Printf (slog_call_line self c w)] else []))
   \<and> (logging_callback self = Some cb \<and> priv_print self \<and> code cb = cb_idle cb \<longrightarrow>
      out (snd (slog_run code self c w)) =
        out w @ [Callback cb (slog_call_level c) (slog_call_time w) (slog_call_line self c w),
                 Printf (slog_call_line self c w)])
   \<and> (log_callback g = Some cb \<longrightarrow>
      idflog_call_notified code' g c' w =
        code' cb (idflog_call_level c') (idflog_call_time w) (idflog_call_message c')
          (g, emit (Callback cb (idflog_call_level c') (idflog_call_time w)
                      (idflog_call_message c')) (w\<lparr>reads := Suc (reads w)\<rparr>))
      \<and> out (snd (idflog_run code' g c' w)) =
          out (snd (idflog_call_notified code' g c' w))
          @ (if print_enabled (fst (idflog_call_notified code' g c' w))
             then [Printf (idflog_call_line
                             (show_time_enabled (fst (idflog_call_notified code' g c' w))) c' w)]
             else []))
   \<and> (log_callback g = Some cb \<and> print_enabled g \<and> code' cb = cb_idle cb \<longrightarrow>
      out (snd (idflog_run code' g c' w)) =
        out w @ [Callback cb (idflog_call_level c') (idflog_call_time w) (idflog_call_message c'),
                 Printf (idflog_call_line (show_time_enabled g) c' w)])"
proof -
  have i1: "slog_call_notified code self c w =
        code cb (slog_call_level c) (slog_call_time w) (slog_call_line self c w)
          (self, emit (Callback cb (slog_call_level c) (slog_call_time w)
                         (slog_call_line self c w)) (w\<lparr>reads := Suc (reads w)\<rparr>))"
    if "logging_callback self = Some cb"
    using that by (rule slog_call_notified_Some)
  note i2 = slog_run_out [of code self c w]
  have i3: "out (snd (slog_run code self c w)) =
        out w @ [Callback cb (slog_call_level c) (slog_call_time w) (slog_call_line self c w),
                 Printf (slog_call_line self c w)]"
    if "logging_callback self = Some cb \<and> priv_print self \<and> code cb = cb_idle cb"
    using that by (simp add: slog_run_out slog_call_notified_idle emit_simps)
  have s1: "idflog_call_notified code' g c' w =
        code' cb (idflog_call_level c') (idflog_call_time w) (idflog_call_message c')
          (g, emit (Callback cb (idflog_call_level c') (idflog_call_time w)
                      (idflog_call_message c')) (w\<lparr>reads := Suc (reads w)\<rparr>))"
    if "log_callback g = Some cb"
    using that by (rule idflog_call_notified_Some)
  note s2 = idflog_run_out [of code' g c' w]
  have s3: "out (snd (idflog_run code' g c' w)) =
        out w @ [Callback cb (idflog_call_level c') (idflog_call_time w) (idflog_call_message c'),
                 Printf (idflog_call_line (show_time_enabled g) c' w)]"
    if "log_callback g = Some cb \<and> print_enabled g \<and> code' cb = cb_idle cb"
    using that by (simp add: idflog_run_out idflog_call_notified_idle emit_simps)
  from i1 i2 i3 s1 s2 s3 show ?thesis by blast
qed

theorem callback_before_console_witness:
  "logging_callback (slog_set_log_callback (slog_init slog_zero) (Some 7)) = Some 7
   \<and> priv_print (slog_set_log_callback (slog_init slog_zero) (Some 7))
   \<and> out (snd (slog_run cb_idle (slog_set_log_callback (slog_init slog_zero) (Some 7))
               (Slog_w ''X'') world0)) =
       [Callback 7 IDFLOG_WARNING 1234 ''1234 [WARNING]: X\<newline>'',
        Printf ''1234 [WARNING]: X\<newline>'']
   \<and> log_callback (idflog_set_callback statics_start (Some 7)) = Some 7
   \<and> print_enabled (idflog_set_callback statics_start (Some 7))
   \<and> out (snd (idflog_run cb_idle (idflog_set_callback statics_start (Some 7))
               (Idflog_warning ''X'') world0)) =
       [Callback 7 IDFLOG_WARNING 1234 ''X'', Printf ''[1234] [WARNING] X\<newline>'']"
proof -
  let ?s = "slog_set_log_callback (slog_init slog_zero) (Some 7)"
  let ?g = "idflog_set_callback statics_start (Some 7)"
  have s: "logging_callback ?s = Some 7 \<and> priv_print ?s \<and> priv_time ?s"
    by (simp add: slog_set_log_callback_def slog_init_def)
  have g: "log_callback ?g = Some 7 \<and> print_enabled ?g \<and> show_time_enabled ?g"
    by (simp add: idflog_set_callback_def statics_start_def)
  have idle: "(cb_idle :: slog_t user_code) 7 = cb_idle 7
              \<and> (cb_idle :: statics user_code) 7 = cb_idle 7"
    by simp
  have ln: "slog_call_line ?s (Slog_w ''X'') world0 = ''1234 [WARNING]: X\<newline>''"
    using s
    by (simp add: slog_call_line_def call_time_world0 slog_msg_def snprintf_def fmt_lu_def
          fmt_nat_1234 slog_level_name_def)
  have tx: "idflog_call_line True (Idflog_warning ''X'') world0 = ''[1234] [WARNING] X\<newline>''"
    by (simp add: idflog_call_line_def call_time_world0 send_logs_text_def fmt_lu_def
          fmt_nat_1234 get_level_name_def)
  note t = callback_before_console
    [of ?s 7 cb_idle "Slog_w ''X''" world0 ?g cb_idle "Idflog_warning ''X''"]
  have a: "out (snd (slog_run cb_idle ?s (Slog_w ''X'') world0)) =
        out world0 @ [Callback 7 (slog_call_level (Slog_w ''X'')) (slog_call_time world0)
                        (slog_call_line ?s (Slog_w ''X'') world0),
                      Printf (slog_call_line ?s (Slog_w ''X'') world0)]"
    using t s idle by blast
  have b: "out (snd (idflog_run cb_idle ?g (Idflog_warning ''X'') world0)) =
        out world0 @ [Callback 7 (idflog_call_level (Idflog_warning ''X''))
                        (idflog_call_time world0) (idflog_call_message (Idflog_warning ''X'')),
                      Printf (idflog_call_line (show_time_enabled ?g) (Idflog_warning ''X'')
                                world0)]"
    using t g idle by blast
  from a b s g show ?thesis
    by (simp add: out_world0 call_time_world0 ln tx)
qed

text \<open>
  C9. Every log call of either surface reads the clock exactly once, at entry: the
  callback statement starts from a world with one more clock reading, and nothing after
  it reads the clock. That one value is the second argument of the callback and the
  timestamp of the console line, whatever the show-time flag: with timestamps hidden the
  callback still receives it. With timestamps shown, the instance line starts with that
  value in decimal and the standalone line with that value in brackets.
\<close>

theorem timestamp_sampled_once:
  "slog_call_time w =
     word_of_int (tv_sec (clock w (reads w)) * 1000 + c_div (tv_usec (clock w (reads w))) 1000)
   \<and> idflog_call_time w = slog_call_time w
   \<and> slog_call_line self c w =
       slog_msg (priv_time self) (slog_call_time w) (slog_call_level c) (slog_call_message c)
   \<and> idflog_call_line show_t c' w =
       send_logs_text show_t (idflog_call_time w) (idflog_call_level c') (idflog_call_message c')
   \<and> prefix (fmt_lu t @ '' '') (slog_msg True t level message)
   \<and> prefix (''['' @ fmt_lu t @ ''] '') (send_logs_text True t level message)
   \<and> (logging_callback self = None \<longrightarrow>
        reads (snd (slog_run code self c w)) = Suc (reads w)
        \<and> out (snd (slog_run code self c w)) =
            out w @ (if priv_print self then [Printf (slog_call_line self c w)] else []))
   \<and> (logging_callback self = Some cb \<longrightarrow>
        slog_call_notified code self c w =
          code cb (slog_call_level c) (slog_call_time w) (slog_call_line self c w)
            (self, emit (Callback cb (slog_call_level c) (slog_call_time w)
                           (slog_call_line self c w)) (w\<lparr>reads := Suc (reads w)\<rparr>))
        \<and> reads (snd (slog_run code self c w)) = reads (snd (slog_call_notified code self c w))
        \<and> out (snd (slog_run code self c w)) =
            out (snd (slog_call_notified code self c w))
            @ (if priv_print (fst (slog_call_notified code self c w))
               then [Printf (slog_call_line self c w)] else []))
   \<and> (logging_callback self = Some cb \<and> code cb = cb_idle cb \<longrightarrow>
        reads (snd (slog_run code self c w)) = Suc (reads w)
        \<and> out (snd (slog_run code self c w)) =
            out w
            @ Callback cb (slog_call_level c) (slog_call_time w) (slog_call_line self c w)
            # (if priv_print self then [Printf (slog_call_line self c w)] else []))
   \<and> (log_callback g = None \<longrightarrow>
        reads (snd (idflog_run code' g c' w)) = Suc (reads w)
        \<and> out (snd (idflog_run code' g c' w)) =
            out w
            @ (if print_enabled g then [Printf (idflog_call_line (show_time_enabled g) c' w)]
               else []))
   \<and> (log_callback g = Some cb \<longrightarrow>
        idflog_call_notified code' g c' w =
          code' cb (idflog_call_level c') (idflog_call_time w) (idflog_call_message c')
            (g, emit (Callback cb (idflog_call_level c') (idflog_call_time w)
                        (idflog_call_message c')) (w\<lparr>reads := Suc (reads w)\<rparr>))
        \<and> reads (snd (idflog_run code' g c' w)) =
            reads (snd (idflog_call_notified code' g c' w))
        \<and> out (snd (idflog_run code' g c' w)) =
            out (snd (idflog_call_notified code' g c' w))
            @ (if print_enabled (fst (idflog_call_notified code' g c' w))
               then [Printf (idflog_call_line
                               (show_time_enabled (fst (idflog_call_notified code' g c' w)))
                               c' w)]
               else []))
   \<and> (log_callback g = Some cb \<and> code' cb = cb_idle cb \<longrightarrow>
        reads (snd (idflog_run code' g c' w)) = Suc (reads w)
        \<and> out (snd (idflog_run code' g c' w)) =
            out w
            @ Callback cb (idflog_call_level c') (idflog_call_time w) (idflog_call_message c')
            # (if print_enabled g then [Printf (idflog_call_line (show_time_enabled g) c' w)]
               else []))"
proof -
  have v1: "slog_call_time w =
     word_of_int (tv_sec (clock w (reads w)) * 1000 + c_div (tv_usec (clock w (reads w))) 1000)"
    by (simp add: slog_call_time_def get_millis_eq)
  have v2: "idflog_call_time w = slog_call_time w"
    by (simp add: slog_call_time_def idflog_call_time_def get_timestamp_ms_eq)
  note v3 = slog_call_line_def [of self c w]
  note v4 = idflog_call_line_def [of show_t c' w]
  have p1: "prefix (fmt_lu t @ '' '') (slog_msg True t level message)"
  proof -
    have "slog_msg True t level message =
            (fmt_lu t @ '' '') @ slog_level_name level
            @ take (511 - length (fmt_lu t @ '' '' @ slog_level_name level))
                ('': '' @ message @ [CHR 0x0A])"
      by (simp add: slog_msg_time_head)
    then show ?thesis by (metis prefixI)
  qed
  have p2: "prefix (''['' @ fmt_lu t @ ''] '') (send_logs_text True t level message)"
    by (simp add: send_logs_text_def)
  have i1: "reads (snd (slog_run code self c w)) = Suc (reads w)
        \<and> out (snd (slog_run code self c w)) =
            out w @ (if priv_print self then [Printf (slog_call_line self c w)] else [])"
    if "logging_callback self = None"
    using that by (simp add: slog_run_out slog_run_reads slog_call_notified_None)
  have i2: "slog_call_notified code self c w =
          code cb (slog_call_level c) (slog_call_time w) (slog_call_line self c w)
            (self, emit (Callback cb (slog_call_level c) (slog_call_time w)
                           (slog_call_line self c w)) (w\<lparr>reads := Suc (reads w)\<rparr>))
        \<and> reads (snd (slog_run code self c w)) = reads (snd (slog_call_notified code self c w))
        \<and> out (snd (slog_run code self c w)) =
            out (snd (slog_call_notified code self c w))
            @ (if priv_print (fst (slog_call_notified code self c w))
               then [Printf (slog_call_line self c w)] else [])"
    if "logging_callback self = Some cb"
    using slog_call_notified_Some [OF that, of code c w] slog_run_reads [of code self c w]
      slog_run_out [of code self c w]
    by blast
  have i3: "reads (snd (slog_run code self c w)) = Suc (reads w)
        \<and> out (snd (slog_run code self c w)) =
            out w
            @ Callback cb (slog_call_level c) (slog_call_time w) (slog_call_line self c w)
            # (if priv_print self then [Printf (slog_call_line self c w)] else [])"
    if "logging_callback self = Some cb \<and> code cb = cb_idle cb"
    using that by (simp add: slog_run_out slog_run_reads slog_call_notified_idle emit_simps)
  have s1: "reads (snd (idflog_run code' g c' w)) = Suc (reads w)
        \<and> out (snd (idflog_run code' g c' w)) =
            out w
            @ (if print_enabled g then [Printf (idflog_call_line (show_time_enabled g) c' w)]
               else [])"
    if "log_callback g = None"
    using that by (simp add: idflog_run_out idflog_run_reads idflog_call_notified_None)
  have s2: "idflog_call_notified code' g c' w =
          code' cb (idflog_call_level c') (idflog_call_time w) (idflog_call_message c')
            (g, emit (Callback cb (idflog_call_level c') (idflog_call_time w)
                        (idflog_call_message c')) (w\<lparr>reads := Suc (reads w)\<rparr>))
        \<and> reads (snd (idflog_run code' g c' w)) =
            reads (snd (idflog_call_notified code' g c' w))
        \<and> out (snd (idflog_run code' g c' w)) =
            out (snd (idflog_call_notified code' g c' w))
            @ (if print_enabled (fst (idflog_call_notified code' g c' w))
               then [Printf (idflog_call_line
                               (show_time_enabled (fst (idflog_call_notified code' g c' w)))
                               c' w)]
               else [])"
    if "log_callback g = Some cb"
    using idflog_call_notified_Some [OF that, of code' c' w] idflog_run_reads [of code' g c' w]
      idflog_run_out [of code' g c' w]
    by blast
  have s3: "reads (snd (idflog_run code' g c' w)) = Suc (reads w)
        \<and> out (snd (idflog_run code' g c' w)) =
            out w
            @ Callback cb (idflog_call_level c') (idflog_call_time w) (idflog_call_message c')
            # (if print_enabled g then [Printf (idflog_call_line (show_time_enabled g) c' w)]
               else [])"
    if "log_callback g = Some cb \<and> code' cb = cb_idle cb"
    using that by (simp add: idflog_run_out idflog_run_reads idflog_call_notified_idle emit_simps)
  from v1 v2 v3 v4 p1 p2 i1 i2 i3 s1 s2 s3 show ?thesis by blast
qed

theorem timestamp_sampled_once_witness:
  "logging_callback (slog_set_log_callback (slog_show_time (slog_init slog_zero) False) (Some 7))
     = Some 7
   \<and> reads (snd (slog_run cb_idle
                 (slog_set_log_callback (slog_show_time (slog_init slog_zero) False) (Some 7))
                 (Slog_i ''X'') world0)) = 1
   \<and> out (snd (slog_run cb_idle
                 (slog_set_log_callback (slog_show_time (slog_init slog_zero) False) (Some 7))
                 (Slog_i ''X'') world0)) =
       [Callback 7 IDFLOG_INFO 1234 ''[INFO]: X\<newline>'', Printf ''[INFO]: X\<newline>'']
   \<and> log_callback (idflog_set_callback (idflog_show_time statics_start False) (Some 7)) = Some 7
   \<and> reads (snd (idflog_run cb_idle
                 (idflog_set_callback (idflog_show_time statics_start False) (Some 7))
                 (Idflog_info ''X'') world0)) = 1
   \<and> out (snd (idflog_run cb_idle
                 (idflog_set_callback (idflog_show_time statics_start False) (Some 7))
                 (Idflog_info ''X'') world0)) =
       [Callback 7 IDFLOG_INFO 1234 ''X'', Printf ''[INFO] X\<newline>'']"
proof -
  let ?s = "slog_set_log_callback (slog_show_time (slog_init slog_zero) False) (Some 7)"
  let ?g = "idflog_set_callback (idflog_show_time statics_start False) (Some 7)"
  have s: "logging_callback ?s = Some 7 \<and> priv_print ?s \<and> \<not> priv_time ?s"
    by (simp add: slog_set_log_callback_def slog_show_time_def slog_init_def)
  have g: "log_callback ?g = Some 7 \<and> print_enabled ?g \<and> \<not> show_time_enabled ?g"
    by (simp add: idflog_set_callback_def idflog_show_time_def statics_start_def)
  have idle: "(cb_idle :: slog_t user_code) 7 = cb_idle 7
              \<and> (cb_idle :: statics user_code) 7 = cb_idle 7"
    by simp
  note t = timestamp_sampled_once
    [of world0 ?s "Slog_i ''X''" False "Idflog_info ''X''" 1234 IDFLOG_INFO "''X''" cb_idle 7
        ?g cb_idle]
  have a: "reads (snd (slog_run cb_idle ?s (Slog_i ''X'') world0)) = Suc (reads world0)
        \<and> out (snd (slog_run cb_idle ?s (Slog_i ''X'') world0)) =
            out world0
            @ Callback 7 (slog_call_level (Slog_i ''X'')) (slog_call_time world0)
                (slog_call_line ?s (Slog_i ''X'') world0)
            # (if priv_print ?s then [Printf (slog_call_line ?s (Slog_i ''X'') world0)] else [])"
    using t s idle by blast
  have b: "reads (snd (idflog_run cb_idle ?g (Idflog_info ''X'') world0)) = Suc (reads world0)
        \<and> out (snd (idflog_run cb_idle ?g (Idflog_info ''X'') world0)) =
            out world0
            @ Callback 7 (idflog_call_level (Idflog_info ''X'')) (idflog_call_time world0)
                (idflog_call_message (Idflog_info ''X''))
            # (if print_enabled ?g
               then [Printf (idflog_call_line (show_time_enabled ?g) (Idflog_info ''X'') world0)]
               else [])"
    using t g idle by blast
  from a b s g show ?thesis
    by (simp add: out_world0 world0_reads call_time_world0 slog_call_line_X idflog_call_X)
qed

section \<open>Level tags\<close>

lemma unknown_level:
  "level \<notin> {IDFLOG_DEBUG, IDFLOG_INFO, IDFLOG_ERROR, IDFLOG_VERBOSE, IDFLOG_WARNING, IDFLOG_WTF}
   \<Longrightarrow> get_level_name level = ''UNKNOWN''"
  by (simp add: get_level_name_def)

text \<open>
  C5. The level-tag mapping is total. The six enumerators render DEBUG, INFO, ERROR,
  VERBOSE, WARNING and WTF; the instance surface renders the same tag in brackets; every
  other level value renders UNKNOWN (bracketed on the instance surface). Every logging
  entry point of both surfaces renders its line with the tag of its level, the fixed one
  of a level-specific entry point or the one passed to a generic entry point, and writes
  that line to the console when print is enabled as its callback statement ends.
\<close>

theorem level_tag_mapping_total:
  "get_level_name IDFLOG_DEBUG = ''DEBUG'' \<and> get_level_name IDFLOG_INFO = ''INFO''
   \<and> get_level_name IDFLOG_ERROR = ''ERROR'' \<and> get_level_name IDFLOG_VERBOSE = ''VERBOSE''
   \<and> get_level_name IDFLOG_WARNING = ''WARNING'' \<and> get_level_name IDFLOG_WTF = ''WTF''
   \<and> slog_level_name level = ''['' @ get_level_name level @ '']''
   \<and> (level \<notin> {IDFLOG_DEBUG, IDFLOG_INFO, IDFLOG_ERROR, IDFLOG_VERBOSE, IDFLOG_WARNING,
                 IDFLOG_WTF} \<longrightarrow>
        get_level_name level = ''UNKNOWN'' \<and> slog_level_name level = ''[UNKNOWN]'')
   \<and> slog_call_line self c w =
       slog_msg (priv_time self) (slog_call_time w) (slog_call_level c) (slog_call_message c)
   \<and> sublist (slog_level_name (slog_call_level c)) (slog_call_line self c w)
   \<and> out (snd (slog_run code self c w)) =
       out (snd (slog_call_notified code self c w))
       @ (if priv_print (fst (slog_call_notified code self c w))
          then [Printf (slog_call_line self c w)] else [])
   \<and> (logging_callback self = None \<longrightarrow>
        slog_call_notified code self c w = (self, w\<lparr>reads := Suc (reads w)\<rparr>))
   \<and> idflog_call_line show_t c' w =
       send_logs_text show_t (idflog_call_time w) (idflog_call_level c') (idflog_call_message c')
   \<and> sublist (''['' @ get_level_name (idflog_call_level c') @ '']'')
        (idflog_call_line show_t c' w)
   \<and> out (snd (idflog_run code' g c' w)) =
       out (snd (idflog_call_notified code' g c' w))
       @ (if print_enabled (fst (idflog_call_notified code' g c' w))
          then [Printf (idflog_call_line
                          (show_time_enabled (fst (idflog_call_notified code' g c' w))) c' w)]
          else [])
   \<and> (log_callback g = None \<longrightarrow>
        idflog_call_notified code' g c' w = (g, w\<lparr>reads := Suc (reads w)\<rparr>))"
proof -
  have named: "get_level_name IDFLOG_DEBUG = ''DEBUG'' \<and> get_level_name IDFLOG_INFO = ''INFO''
   \<and> get_level_name IDFLOG_ERROR = ''ERROR'' \<and> get_level_name IDFLOG_VERBOSE = ''VERBOSE''
   \<and> get_level_name IDFLOG_WARNING = ''WARNING'' \<and> get_level_name IDFLOG_WTF = ''WTF''"
    by (simp add: get_level_name_def)
  note brackets = slog_level_name_brackets [of level]
  have other: "get_level_name level = ''UNKNOWN'' \<and> slog_level_name level = ''[UNKNOWN]''"
    if "level \<notin> {IDFLOG_DEBUG, IDFLOG_INFO, IDFLOG_ERROR, IDFLOG_VERBOSE, IDFLOG_WARNING,
                     IDFLOG_WTF}"
    using unknown_level [OF that] by (simp add: slog_level_name_brackets)
  note l1 = slog_call_line_def [of self c w]
  have l2: "sublist (slog_level_name (slog_call_level c)) (slog_call_line self c w)"
    by (simp add: slog_call_line_def slog_msg_contains_tag)
  note l3 = slog_run_out [of code self c w]
  have l4: "slog_call_notified code self c w = (self, w\<lparr>reads := Suc (reads w)\<rparr>)"
    if "logging_callback self = None"
    using that by (rule slog_call_notified_None)
  note m1 = idflog_call_line_def [of show_t c' w]
  have m2: "sublist (''['' @ get_level_name (idflog_call_level c') @ '']'')
              (idflog_call_line show_t c' w)"
    by (simp only: idflog_call_line_def send_logs_text_contains_tag)
  note m3 = idflog_run_out [of code' g c' w]
  have m4: "idflog_call_notified code' g c' w = (g, w\<lparr>reads := Suc (reads w)\<rparr>)"
    if "log_callback g = None"
    using that by (rule idflog_call_notified_None)
  from named brackets other l1 l2 l3 l4 m1 m2 m3 m4 show ?thesis by blast
qed

theorem level_tag_mapping_total_witness:
  "(7 :: idflog_level_t) \<notin> {IDFLOG_DEBUG, IDFLOG_INFO, IDFLOG_ERROR, IDFLOG_VERBOSE,
        IDFLOG_WARNING, IDFLOG_WTF}
   \<and> get_level_name 7 = ''UNKNOWN'' \<and> slog_level_name 7 = ''[UNKNOWN]''
   \<and> logging_callback (slog_init slog_zero) = None
   \<and> out (snd (slog_run cb_idle (slog_init slog_zero) (Slog_log 7 ''X'') world0)) =
       [Printf ''1234 [UNKNOWN]: X\<newline>'']
   \<and> out (snd (slog_run cb_idle (slog_init slog_zero) (Slog_wtf ''X'') world0)) =
       [Printf ''1234 [WTF]: X\<newline>'']
   \<and> log_callback statics_start = None
   \<and> out (snd (idflog_run cb_idle statics_start (Idflog_log 7 ''X'') world0)) =
       [Printf ''[1234] [UNKNOWN] X\<newline>'']
   \<and> out (snd (idflog_run cb_idle statics_start (Idflog_wtf ''X'') world0)) =
       [Printf ''[1234] [WTF] X\<newline>'']"
proof -
  let ?s = "slog_init slog_zero"
  let ?g = "statics_start"
  have h: "(7 :: idflog_level_t) \<notin> {IDFLOG_DEBUG, IDFLOG_INFO, IDFLOG_ERROR, IDFLOG_VERBOSE,
        IDFLOG_WARNING, IDFLOG_WTF}" by simp
  have s: "logging_callback ?s = None \<and> priv_print ?s \<and> priv_time ?s"
    by (simp add: slog_init_def)
  have g: "log_callback ?g = None \<and> print_enabled ?g \<and> show_time_enabled ?g"
    by (simp add: statics_start_def)
  note t1 = level_tag_mapping_total
    [of 7 ?s "Slog_log 7 ''X''" world0 cb_idle True "Idflog_log 7 ''X''" cb_idle ?g]
  note t2 = level_tag_mapping_total
    [of 7 ?s "Slog_wtf ''X''" world0 cb_idle True "Idflog_wtf ''X''" cb_idle ?g]
  have u: "get_level_name 7 = ''UNKNOWN'' \<and> slog_level_name 7 = ''[UNKNOWN]''"
    using t1 h by simp
  have n1: "slog_call_notified cb_idle ?s (Slog_log 7 ''X'') world0 =
              (?s, world0\<lparr>reads := Suc (reads world0)\<rparr>)"
    using t1 s by simp
  have n2: "slog_call_notified cb_idle ?s (Slog_wtf ''X'') world0 =
              (?s, world0\<lparr>reads := Suc (reads world0)\<rparr>)"
    using t2 s by simp
  have n3: "idflog_call_notified cb_idle ?g (Idflog_log 7 ''X'') world0 =
              (?g, world0\<lparr>reads := Suc (reads world0)\<rparr>)"
    using t1 g by simp
  have n4: "idflog_call_notified cb_idle ?g (Idflog_wtf ''X'') world0 =
              (?g, world0\<lparr>reads := Suc (reads world0)\<rparr>)"
    using t2 g by simp
  have o1: "out (snd (slog_run cb_idle ?s (Slog_log 7 ''X'') world0)) =
       out (snd (slog_call_notified cb_idle ?s (Slog_log 7 ''X'') world0))
       @ (if priv_print (fst (slog_call_notified cb_idle ?s (Slog_log 7 ''X'') world0))
          then [Printf (slog_call_line ?s (Slog_log 7 ''X'') world0)] else [])"
    using t1 by (elim conjE) assumption
  have o2: "out (snd (slog_run cb_idle ?s (Slog_wtf ''X'') world0)) =
       out (snd (slog_call_notified cb_idle ?s (Slog_wtf ''X'') world0))
       @ (if priv_print (fst (slog_call_notified cb_idle ?s (Slog_wtf ''X'') world0))
          then [Printf (slog_call_line ?s (Slog_wtf ''X'') world0)] else [])"
    using t2 by (elim conjE) assumption
  have o3: "out (snd (idflog_run cb_idle ?g (Idflog_log 7 ''X'') world0)) =
       out (snd (idflog_call_notified cb_idle ?g (Idflog_log 7 ''X'') world0))
       @ (if print_enabled (fst (idflog_call_notified cb_idle ?g (Idflog_log 7 ''X'') world0))
          then [Printf (idflog_call_line
                          (show_time_enabled
                             (fst (idflog_call_notified cb_idle ?g (Idflog_log 7 ''X'') world0)))
                          (Idflog_log 7 ''X'') world0)]
          else [])"
    using t1 by (elim conjE) assumption
  have o4: "out (snd (idflog_run cb_idle ?g (Idflog_wtf ''X'') world0)) =
       out (snd (idflog_call_notified cb_idle ?g (Idflog_wtf ''X'') world0))
       @ (if print_enabled (fst (idflog_call_notified cb_idle ?g (Idflog_wtf ''X'') world0))
          then [Printf (idflog_call_line
                          (show_time_enabled
                             (fst (idflog_call_notified cb_idle ?g (Idflog_wtf ''X'') world0)))
                          (Idflog_wtf ''X'') world0)]
          else [])"
    using t2 by (elim conjE) assumption
  have lines: "slog_call_line ?s (Slog_log 7 ''X'') world0 = ''1234 [UNKNOWN]: X\<newline>''
     \<and> slog_call_line ?s (Slog_wtf ''X'') world0 = ''1234 [WTF]: X\<newline>''
     \<and> idflog_call_line True (Idflog_log 7 ''X'') world0 = ''[1234] [UNKNOWN] X\<newline>''
     \<and> idflog_call_line True (Idflog_wtf ''X'') world0 = ''[1234] [WTF] X\<newline>''"
    using s
    by (simp add: slog_call_line_def idflog_call_line_def call_time_world0 slog_msg_def
          snprintf_def send_logs_text_def fmt_lu_def fmt_nat_1234 slog_level_name_def
          get_level_name_def)
  from h u s g o1 o2 o3 o4 show ?thesis
    by (simp add: n1 n2 n3 n4 lines out_world0)
qed

section \<open>The rendered line\<close>

lemma get_level_name_length: "length (get_level_name level) \<le> 7"
  by (simp add: get_level_name_def)

lemma slog_msg_short_message:
  assumes "length message \<le> 255"
  shows "length (fmt_lu time @ '' '' @ slog_level_name level @ '': '' @ message @ [CHR 0x0A]) < 512"
    and "length (slog_level_name level @ '': '' @ message @ [CHR 0x0A]) < 512"
  using assms fmt_lu_length [of time] slog_level_name_length [of level] by simp_all

lemma slog_msg_take:
  "slog_msg True t level message =
     take 511 (fmt_lu t @ '' '' @ slog_level_name level @ '': '' @ message @ [CHR 0x0A])"
  "slog_msg False t level message =
     take 511 (slog_level_name level @ '': '' @ message @ [CHR 0x0A])"
  by (simp_all add: slog_msg_def snprintf_def)

text \<open>
  C3 as stated fails on the instance surface: a message of 600 characters, logged through
  a plain-message entry point with timestamps shown, is rendered into the 512-byte buffer
  as a line of at most 511 characters, which does not end with the message and a line
  terminator; with print enabled that line is what \<^verbatim>\<open>slog.i\<close> writes.
\<close>

theorem rendered_line_ending_counterexample:
  "\<not> suffix (replicate 600 (CHR ''a'') @ ''\<newline>'')
       (slog_msg True 1234 IDFLOG_INFO (replicate 600 (CHR ''a'')))
   \<and> out (snd (slog_run cb_idle (slog_init slog_zero) (Slog_i (replicate 600 (CHR ''a'')))
               world0)) =
       [Printf (slog_msg True 1234 IDFLOG_INFO (replicate 600 (CHR ''a'')))]"
proof -
  have a: "\<not> suffix (replicate 600 (CHR ''a'') @ ''\<newline>'')
       (slog_msg True 1234 IDFLOG_INFO (replicate 600 (CHR ''a'')))"
  proof
    assume "suffix (replicate 600 (CHR ''a'') @ ''\<newline>'')
         (slog_msg True 1234 IDFLOG_INFO (replicate 600 (CHR ''a'')))"
    then have "length (replicate 600 (CHR ''a'') @ ''\<newline>'')
         \<le> length (slog_msg True 1234 IDFLOG_INFO (replicate 600 (CHR ''a'')))"
      by (rule suffix_length_le)
    with slog_msg_length [of True 1234 IDFLOG_INFO "replicate 600 (CHR ''a'')"]
    show False by simp
  qed
  have s: "logging_callback (slog_init slog_zero) = None \<and> priv_print (slog_init slog_zero)
           \<and> priv_time (slog_init slog_zero)"
    by (simp add: slog_init_def)
  have b: "out (snd (slog_run cb_idle (slog_init slog_zero) (Slog_i (replicate 600 (CHR ''a'')))
               world0)) =
       [Printf (slog_msg True 1234 IDFLOG_INFO (replicate 600 (CHR ''a'')))]"
    using s
    by (simp add: slog_run_out slog_call_notified_None slog_call_line_def call_time_world0
          out_world0)
  from a b show ?thesis by blast
qed

text \<open>
  C3, amended. For every level, timestamp and message, with timestamps shown: the line the
  standalone surface writes contains the level tag and ends with the message followed by
  one line terminator; the line the instance surface renders is the first 511 characters
  of timestamp, tag, colon, message and line terminator: it contains the level tag (bare
  and in brackets), it ends with the message followed by one line terminator whenever the
  complete line has at most 511 characters, which is so for every message of at most 255
  characters, hence for every formatted entry point, and it is 511 characters long when
  the complete line is longer. Every logging entry point of either surface renders that
  line for its level and message and writes it when print is enabled.
\<close>

theorem rendered_line_tag_and_ending:
  "sublist (get_level_name level) (send_logs_text True t level message)
   \<and> suffix (message @ ''\<newline>'') (send_logs_text True t level message)
   \<and> sublist (get_level_name level) (slog_msg True t level message)
   \<and> sublist (slog_level_name level) (slog_msg True t level message)
   \<and> slog_msg True t level message =
       take 511 (fmt_lu t @ '' '' @ slog_level_name level @ '': '' @ message @ ''\<newline>'')
   \<and> (511 < length (fmt_lu t @ '' '' @ slog_level_name level @ '': '' @ message @ ''\<newline>'')
        \<longrightarrow> length (slog_msg True t level message) = 511)
   \<and> (length (fmt_lu t @ '' '' @ slog_level_name level @ '': '' @ message @ ''\<newline>'') \<le> 511
        \<longrightarrow> suffix (message @ ''\<newline>'') (slog_msg True t level message))
   \<and> (length message \<le> 255
        \<longrightarrow> suffix (message @ ''\<newline>'') (slog_msg True t level message))
   \<and> suffix (vsnprintf 256 expansion @ ''\<newline>'')
        (slog_msg True t level (vsnprintf 256 expansion))
   \<and> (priv_time self \<longrightarrow>
        slog_call_line self c w =
          slog_msg True (slog_call_time w) (slog_call_level c) (slog_call_message c))
   \<and> out (snd (slog_run code self c w)) =
       out (snd (slog_call_notified code self c w))
       @ (if priv_print (fst (slog_call_notified code self c w))
          then [Printf (slog_call_line self c w)] else [])
   \<and> idflog_call_line True c' w =
       send_logs_text True (idflog_call_time w) (idflog_call_level c') (idflog_call_message c')
   \<and> out (snd (idflog_run code' g c' w)) =
       out (snd (idflog_call_notified code' g c' w))
       @ (if print_enabled (fst (idflog_call_notified code' g c' w))
          then [Printf (idflog_call_line
                          (show_time_enabled (fst (idflog_call_notified code' g c' w))) c' w)]
          else [])"
proof -
  have fits: "suffix (m @ ''\<newline>'') (slog_msg True t level m)"
    if "length (fmt_lu t @ '' '' @ slog_level_name level @ '': '' @ m @ ''\<newline>'') \<le> 511"
    for m
  proof -
    from that have "slog_msg True t level m =
        (fmt_lu t @ '' '' @ slog_level_name level @ '': '') @ m @ ''\<newline>''"
      using slog_msg_fits [of t level m]
        snprintf_fits [of "fmt_lu t @ '' '' @ slog_level_name level @ '': '' @ m @ ''\<newline>''" 512]
      by simp
    then show ?thesis by (metis suffixI)
  qed
  have short: "suffix (m @ ''\<newline>'') (slog_msg True t level m)" if "length m \<le> 255" for m
    using fits [of m] slog_msg_short_message(1) [OF that, of t level] by simp
  have a1: "sublist (get_level_name level) (send_logs_text True t level message)"
  proof -
    have "sublist (get_level_name level) (''['' @ get_level_name level @ '']'')"
      by (rule sublist_appendI)
    then show ?thesis
      using send_logs_text_contains_tag [of level True t message] sublist_order.order_trans
      by blast
  qed
  have a2: "suffix (message @ ''\<newline>'') (send_logs_text True t level message)"
  proof -
    have "send_logs_text True t level message =
            (''['' @ fmt_lu t @ ''] ['' @ get_level_name level @ ''] '') @ message @ ''\<newline>''"
      by (simp add: send_logs_text_def)
    then show ?thesis by (metis suffixI)
  qed
  have a4: "sublist (slog_level_name level) (slog_msg True t level message)"
    by (rule slog_msg_contains_tag)
  have a3: "sublist (get_level_name level) (slog_msg True t level message)"
  proof -
    have "sublist (get_level_name level) (''['' @ get_level_name level @ '']'')"
      by (rule sublist_appendI)
    then have "sublist (get_level_name level) (slog_level_name level)"
      by (simp add: slog_level_name_brackets)
    with a4 show ?thesis
      using sublist_order.order_trans by blast
  qed
  note a5 = slog_msg_take(1) [of t level message]
  have a6: "length (slog_msg True t level message) = 511"
    if "511 < length (fmt_lu t @ '' '' @ slog_level_name level @ '': '' @ message @ ''\<newline>'')"
    using that unfolding a5 by simp
  have a7: "suffix (vsnprintf 256 expansion @ ''\<newline>'')
        (slog_msg True t level (vsnprintf 256 expansion))"
    using short [of "vsnprintf 256 expansion"] vsnprintf_length [of 256 expansion] by simp
  have t1: "slog_call_line self c w =
          slog_msg True (slog_call_time w) (slog_call_level c) (slog_call_message c)"
    if "priv_time self"
    using that by (simp add: slog_call_line_def)
  note t2 = slog_run_out [of code self c w]
  note t3 = idflog_call_line_def [of True c' w]
  note t4 = idflog_run_out [of code' g c' w]
  from a1 a2 a3 a4 a5 a6 fits [of message] short [of message] a7 t1 t2 t3 t4
  show ?thesis by blast
qed

theorem rendered_line_tag_and_ending_witness:
  "length (fmt_lu 1234 @ '' '' @ slog_level_name IDFLOG_ERROR @ '': '' @ ''disk full'' @ ''\<newline>'')
     \<le> 511
   \<and> length ''disk full'' \<le> 255
   \<and> suffix (''disk full'' @ ''\<newline>'') (slog_msg True 1234 IDFLOG_ERROR ''disk full'')
   \<and> sublist ''ERROR'' (slog_msg True 1234 IDFLOG_ERROR ''disk full'')
   \<and> suffix (''disk full'' @ ''\<newline>'') (send_logs_text True 1234 IDFLOG_ERROR ''disk full'')
   \<and> sublist ''ERROR'' (send_logs_text True 1234 IDFLOG_ERROR ''disk full'')
   \<and> 511 < length (fmt_lu 1234 @ '' '' @ slog_level_name IDFLOG_ERROR @ '': ''
                    @ replicate 600 (CHR ''a'') @ ''\<newline>'')
   \<and> length (slog_msg True 1234 IDFLOG_ERROR (replicate 600 (CHR ''a''))) = 511
   \<and> priv_time (slog_init slog_zero)
   \<and> slog_call_line (slog_init slog_zero) (Slog_e ''disk full'') world0 =
       slog_msg True 1234 IDFLOG_ERROR ''disk full''"
proof -
  have h1: "length (fmt_lu 1234 @ '' '' @ slog_level_name IDFLOG_ERROR @ '': '' @ ''disk full''
              @ ''\<newline>'') \<le> 511"
    by (simp add: fmt_lu_def fmt_nat_1234 slog_level_name_def)
  have h2: "length ''disk full'' \<le> 255" by simp
  have h3: "511 < length (fmt_lu 1234 @ '' '' @ slog_level_name IDFLOG_ERROR @ '': ''
                    @ replicate 600 (CHR ''a'') @ ''\<newline>'')"
    by simp
  have h4: "priv_time (slog_init slog_zero)" by (simp add: slog_init_def)
  have n: "get_level_name IDFLOG_ERROR = ''ERROR''" by (simp add: get_level_name_def)
  note t = rendered_line_tag_and_ending [of IDFLOG_ERROR 1234 "''disk full''" "''disk full''"
      "slog_init slog_zero" "Slog_e ''disk full''" world0]
  note t' = rendered_line_tag_and_ending [of IDFLOG_ERROR 1234 "replicate 600 (CHR ''a'')"]
  have c1: "suffix (''disk full'' @ ''\<newline>'') (slog_msg True 1234 IDFLOG_ERROR ''disk full'')"
    using t h1 by blast
  have c2: "sublist (get_level_name IDFLOG_ERROR) (slog_msg True 1234 IDFLOG_ERROR ''disk full'')"
    using t by blast
  have c3: "suffix (''disk full'' @ ''\<newline>'')
              (send_logs_text True 1234 IDFLOG_ERROR ''disk full'')"
    using t by blast
  have c4: "sublist (get_level_name IDFLOG_ERROR)
              (send_logs_text True 1234 IDFLOG_ERROR ''disk full'')"
    using t by blast
  have c5: "length (slog_msg True 1234 IDFLOG_ERROR (replicate 600 (CHR ''a''))) = 511"
    using t' h3 by blast
  have c6: "slog_call_line (slog_init slog_zero) (Slog_e ''disk full'') world0 =
          slog_msg True (slog_call_time world0) (slog_call_level (Slog_e ''disk full''))
            (slog_call_message (Slog_e ''disk full''))"
    using t h4 by blast
  from h1 h2 h3 h4 c1 c2 c3 c4 c5 c6 n show ?thesis by (simp add: call_time_world0)
qed

text \<open>
  C4 as stated fails on the instance surface: with timestamps hidden, a message of 600
  characters logged at Info is not rendered as the tag, a colon, the message and a line
  terminator, since the line is cut at 511 characters; with print enabled that line is
  what \<^verbatim>\<open>slog.i\<close> writes.
\<close>

theorem instance_format_counterexample:
  "slog_msg False 1234 IDFLOG_INFO (replicate 600 (CHR ''b''))
     \<noteq> ''[INFO]: '' @ replicate 600 (CHR ''b'') @ ''\<newline>''
   \<and> out (snd (slog_run cb_idle (slog_show_time (slog_init slog_zero) False)
               (Slog_i (replicate 600 (CHR ''b''))) world0)) =
       [Printf (slog_msg False 1234 IDFLOG_INFO (replicate 600 (CHR ''b'')))]"
proof -
  have a: "slog_msg False 1234 IDFLOG_INFO (replicate 600 (CHR ''b''))
     \<noteq> ''[INFO]: '' @ replicate 600 (CHR ''b'') @ ''\<newline>''"
  proof
    assume "slog_msg False 1234 IDFLOG_INFO (replicate 600 (CHR ''b''))
              = ''[INFO]: '' @ replicate 600 (CHR ''b'') @ ''\<newline>''"
    then have "length (slog_msg False 1234 IDFLOG_INFO (replicate 600 (CHR ''b'')))
              = length (''[INFO]: '' @ replicate 600 (CHR ''b'') @ ''\<newline>'')"
      by simp
    with slog_msg_length [of False 1234 IDFLOG_INFO "replicate 600 (CHR ''b'')"]
    show False by simp
  qed
  let ?s = "slog_show_time (slog_init slog_zero) False"
  have s: "logging_callback ?s = None \<and> priv_print ?s \<and> \<not> priv_time ?s"
    by (simp add: slog_show_time_def slog_init_def)
  have b: "out (snd (slog_run cb_idle ?s (Slog_i (replicate 600 (CHR ''b''))) world0)) =
       [Printf (slog_msg False 1234 IDFLOG_INFO (replicate 600 (CHR ''b'')))]"
    using s
    by (simp add: slog_run_out slog_call_notified_None slog_call_line_def call_time_world0
          out_world0)
  from a b show ?thesis by blast
qed

text \<open>
  C4, amended. The standalone surface writes, for every level and message, the
  timestamp in brackets, the tag in brackets, the message and a line terminator, and
  without the timestamp bracket when timestamps are hidden. The instance surface renders
  the first 511 characters of the timestamp, the tag in brackets, a colon, the message
  and a line terminator, and of the same without the timestamp when timestamps are
  hidden: the whole of it whenever the complete line has at most 511 characters, which is
  so for every message of at most 255 characters. Every logging entry point of either
  surface renders that line for its level and message and writes it when print is
  enabled. With timestamps hidden, print enabled and no callback, logging X at Info
  writes exactly the line \<^verbatim>\<open>[INFO]: X\<close> on the instance surface and \<^verbatim>\<open>[INFO] X\<close> on the
  standalone surface, each with its line terminator.
\<close>

theorem render_formats:
  "send_logs_text True t level message =
     ''['' @ fmt_lu t @ ''] ['' @ get_level_name level @ ''] '' @ message @ ''\<newline>''
   \<and> send_logs_text False t level message =
     ''['' @ get_level_name level @ ''] '' @ message @ ''\<newline>''
   \<and> slog_msg True t level message =
     take 511 (fmt_lu t @ '' ['' @ get_level_name level @ '']: '' @ message @ ''\<newline>'')
   \<and> slog_msg False t level message =
     take 511 (''['' @ get_level_name level @ '']: '' @ message @ ''\<newline>'')
   \<and> (length (fmt_lu t @ '' ['' @ get_level_name level @ '']: '' @ message @ ''\<newline>'') \<le> 511
        \<longrightarrow> slog_msg True t level message =
              fmt_lu t @ '' ['' @ get_level_name level @ '']: '' @ message @ ''\<newline>'')
   \<and> (length (''['' @ get_level_name level @ '']: '' @ message @ ''\<newline>'') \<le> 511
        \<longrightarrow> slog_msg False t level message =
              ''['' @ get_level_name level @ '']: '' @ message @ ''\<newline>'')
   \<and> (length message \<le> 255
        \<longrightarrow> slog_msg True t level message =
              fmt_lu t @ '' ['' @ get_level_name level @ '']: '' @ message @ ''\<newline>''
            \<and> slog_msg False t level message =
              ''['' @ get_level_name level @ '']: '' @ message @ ''\<newline>'')
   \<and> slog_call_line self c w =
       slog_msg (priv_time self) (slog_call_time w) (slog_call_level c) (slog_call_message c)
   \<and> out (snd (slog_run code self c w)) =
       out (snd (slog_call_notified code self c w))
       @ (if priv_print (fst (slog_call_notified code self c w))
          then [Printf (slog_call_line self c w)] else [])
   \<and> idflog_call_line show_t c' w =
       send_logs_text show_t (idflog_call_time w) (idflog_call_level c') (idflog_call_message c')
   \<and> out (snd (idflog_run code' g c' w)) =
       out (snd (idflog_call_notified code' g c' w))
       @ (if print_enabled (fst (idflog_call_notified code' g c' w))
          then [Printf (idflog_call_line
                          (show_time_enabled (fst (idflog_call_notified code' g c' w))) c' w)]
          else [])
   \<and> (priv_print self \<and> logging_callback self = None
        \<longrightarrow> out (snd (slog_run code (slog_show_time self False) (Slog_i ''X'') w)) =
              out w @ [Printf ''[INFO]: X\<newline>''])
   \<and> (print_enabled g \<and> log_callback g = None
        \<longrightarrow> out (snd (idflog_run code' (idflog_show_time g False) (Idflog_info ''X'') w)) =
              out w @ [Printf ''[INFO] X\<newline>''])"
proof -
  have f1: "send_logs_text True t level message =
     ''['' @ fmt_lu t @ ''] ['' @ get_level_name level @ ''] '' @ message @ ''\<newline>''"
    by (simp add: send_logs_text_def)
  have f2: "send_logs_text False t level message =
     ''['' @ get_level_name level @ ''] '' @ message @ ''\<newline>''"
    by (simp add: send_logs_text_def)
  have k1: "slog_msg True t level message =
     take 511 (fmt_lu t @ '' ['' @ get_level_name level @ '']: '' @ message @ ''\<newline>'')"
    by (simp add: slog_msg_take slog_level_name_brackets)
  have k2: "slog_msg False t level message =
     take 511 (''['' @ get_level_name level @ '']: '' @ message @ ''\<newline>'')"
    by (simp add: slog_msg_take slog_level_name_brackets)
  have f3: "slog_msg True t level message =
              fmt_lu t @ '' ['' @ get_level_name level @ '']: '' @ message @ ''\<newline>''"
    if "length (fmt_lu t @ '' ['' @ get_level_name level @ '']: '' @ message @ ''\<newline>'') \<le> 511"
    using that by (simp only: k1 take_all)
  have f4: "slog_msg False t level message =
              ''['' @ get_level_name level @ '']: '' @ message @ ''\<newline>''"
    if "length (''['' @ get_level_name level @ '']: '' @ message @ ''\<newline>'') \<le> 511"
    using that by (simp only: k2 take_all)
  have f5: "slog_msg True t level message =
              fmt_lu t @ '' ['' @ get_level_name level @ '']: '' @ message @ ''\<newline>''
            \<and> slog_msg False t level message =
              ''['' @ get_level_name level @ '']: '' @ message @ ''\<newline>''"
    if "length message \<le> 255"
  proof -
    from that have "length (fmt_lu t @ '' ['' @ get_level_name level @ '']: '' @ message
                      @ ''\<newline>'') \<le> 511"
      using fmt_lu_length [of t] get_level_name_length [of level] by simp
    moreover from that have "length (''['' @ get_level_name level @ '']: '' @ message
                      @ ''\<newline>'') \<le> 511"
      using get_level_name_length [of level] by simp
    ultimately show ?thesis using f3 f4 by blast
  qed
  note t1 = slog_call_line_def [of self c w]
  note t2 = slog_run_out [of code self c w]
  note t3 = idflog_call_line_def [of show_t c' w]
  note t4 = idflog_run_out [of code' g c' w]
  have x: "slog_call_line (slog_show_time self False) (Slog_i ''X'') w = ''[INFO]: X\<newline>''"
    by (simp add: slog_call_line_def slog_show_time_def slog_msg_def snprintf_def
          slog_level_name_def)
  have f6: "out (snd (slog_run code (slog_show_time self False) (Slog_i ''X'') w)) =
              out w @ [Printf ''[INFO]: X\<newline>'']"
    if "priv_print self \<and> logging_callback self = None"
  proof -
    from that have "logging_callback (slog_show_time self False) = None
        \<and> priv_print (slog_show_time self False)"
      by (simp add: slog_show_time_def)
    then show ?thesis
      by (simp add: slog_run_out slog_call_notified_None x)
  qed
  have y: "idflog_call_line False (Idflog_info ''X'') w = ''[INFO] X\<newline>''"
    by (simp add: idflog_call_line_def send_logs_text_def get_level_name_def)
  have f7: "out (snd (idflog_run code' (idflog_show_time g False) (Idflog_info ''X'') w)) =
              out w @ [Printf ''[INFO] X\<newline>'']"
    if "print_enabled g \<and> log_callback g = None"
  proof -
    from that have "log_callback (idflog_show_time g False) = None
        \<and> print_enabled (idflog_show_time g False)
        \<and> \<not> show_time_enabled (idflog_show_time g False)"
      by (simp add: idflog_show_time_def)
    then show ?thesis
      by (simp add: idflog_run_out idflog_call_notified_None y)
  qed
  from f1 f2 k1 k2 f3 f4 f5 t1 t2 t3 t4 f6 f7 show ?thesis by blast
qed

theorem render_formats_witness:
  "length (fmt_lu 1234 @ '' ['' @ get_level_name IDFLOG_INFO @ '']: '' @ ''X'' @ ''\<newline>'') \<le> 511
   \<and> slog_msg True 1234 IDFLOG_INFO ''X'' = ''1234 [INFO]: X\<newline>''
   \<and> length (''['' @ get_level_name IDFLOG_INFO @ '']: '' @ ''X'' @ ''\<newline>'') \<le> 511
   \<and> slog_msg False 1234 IDFLOG_INFO ''X'' = ''[INFO]: X\<newline>''
   \<and> length ''X'' \<le> 255
   \<and> send_logs_text True 1234 IDFLOG_INFO ''X'' = ''[1234] [INFO] X\<newline>''
   \<and> send_logs_text False 1234 IDFLOG_INFO ''X'' = ''[INFO] X\<newline>''
   \<and> slog_msg False 1234 IDFLOG_INFO (replicate 600 (CHR ''b'')) =
       ''[INFO]: '' @ replicate 503 (CHR ''b'')
   \<and> priv_print (slog_init slog_zero) \<and> logging_callback (slog_init slog_zero) = None
   \<and> out (snd (slog_run cb_idle (slog_show_time (slog_init slog_zero) False) (Slog_i ''X'')
               world0)) =
       [Printf ''[INFO]: X\<newline>'']
   \<and> print_enabled statics_start \<and> log_callback statics_start = None
   \<and> out (snd (idflog_run cb_idle (idflog_show_time statics_start False) (Idflog_info ''X'')
               world0)) =
       [Printf ''[INFO] X\<newline>'']"
proof -
  have n: "get_level_name IDFLOG_INFO = ''INFO''" by (simp add: get_level_name_def)
  have d: "fmt_lu 1234 = ''1234''" by (simp add: fmt_lu_def fmt_nat_1234)
  have h1: "length (fmt_lu 1234 @ '' ['' @ get_level_name IDFLOG_INFO @ '']: '' @ ''X''
              @ ''\<newline>'') \<le> 511"
    by (simp add: n d)
  have h2: "length (''['' @ get_level_name IDFLOG_INFO @ '']: '' @ ''X'' @ ''\<newline>'') \<le> 511"
    by (simp add: n)
  have h3: "length ''X'' \<le> 255" by simp
  have h4: "priv_print (slog_init slog_zero) \<and> logging_callback (slog_init slog_zero) = None"
    by (simp add: slog_init_def)
  have h5: "print_enabled statics_start \<and> log_callback statics_start = None"
    by (simp add: statics_start_def)
  note t = render_formats [where t = 1234 and level = IDFLOG_INFO and message = "''X''"
      and self = "slog_init slog_zero" and w = world0 and g = statics_start
      and code = cb_idle and code' = cb_idle]
  note t' = render_formats [where t = 1234 and level = IDFLOG_INFO
      and message = "replicate 600 (CHR ''b'')"]
  have c1: "slog_msg True 1234 IDFLOG_INFO ''X'' =
              fmt_lu 1234 @ '' ['' @ get_level_name IDFLOG_INFO @ '']: '' @ ''X'' @ ''\<newline>''"
    using t h1 by blast
  have c2: "slog_msg False 1234 IDFLOG_INFO ''X'' =
              ''['' @ get_level_name IDFLOG_INFO @ '']: '' @ ''X'' @ ''\<newline>''"
    using t h2 by blast
  have c3: "send_logs_text True 1234 IDFLOG_INFO ''X'' =
     ''['' @ fmt_lu 1234 @ ''] ['' @ get_level_name IDFLOG_INFO @ ''] '' @ ''X'' @ ''\<newline>''"
    using t by blast
  have c4: "send_logs_text False 1234 IDFLOG_INFO ''X'' =
     ''['' @ get_level_name IDFLOG_INFO @ ''] '' @ ''X'' @ ''\<newline>''"
    using t by blast
  have c5: "out (snd (slog_run cb_idle (slog_show_time (slog_init slog_zero) False)
                   (Slog_i ''X'') world0)) =
              out world0 @ [Printf ''[INFO]: X\<newline>'']"
    using t h4 by blast
  have c6: "out (snd (idflog_run cb_idle (idflog_show_time statics_start False)
                   (Idflog_info ''X'') world0)) =
              out world0 @ [Printf ''[INFO] X\<newline>'']"
    using t h5 by blast
  have c7: "slog_msg False 1234 IDFLOG_INFO (replicate 600 (CHR ''b'')) =
     take 511 (''['' @ get_level_name IDFLOG_INFO @ '']: '' @ replicate 600 (CHR ''b'')
               @ ''\<newline>'')"
    using t' by blast
  have c7': "slog_msg False 1234 IDFLOG_INFO (replicate 600 (CHR ''b'')) =
       ''[INFO]: '' @ replicate 503 (CHR ''b'')"
    using c7 by (simp add: n)
  from h1 h2 h3 h4 h5 c1 c2 c3 c4 c5 c6 c7' show ?thesis
    by (simp add: n d out_world0)
qed

section \<open>The two surfaces compared\<close>

lemma send_logs_text_longer: "length message < length (send_logs_text show_t t level message)"
  by (simp add: send_logs_text_def)

lemma as_slog_call_same:
  "slog_call_level (as_slog_call c) = idflog_call_level c"
  "slog_call_message (as_slog_call c) = idflog_call_message c"
  by (cases c; simp)+

text \<open>
  C1 as stated fails on the standalone surface: with a callback registered and print
  enabled, \<^verbatim>\<open>idflog_info("X")\<close> at clock reading 1234 hands the callback the text
  \<^verbatim>\<open>X\<close>, not the line \<^verbatim>\<open>[1234] [INFO] X\<close> that the console receives.
\<close>

theorem standalone_callback_text_counterexample:
  "out (snd (idflog_run cb_idle (idflog_set_callback statics_start (Some 7))
               (Idflog_info ''X'') world0)) =
     [Callback 7 IDFLOG_INFO 1234 ''X'', Printf ''[1234] [INFO] X\<newline>'']
   \<and> out (snd (idflog_run cb_idle (idflog_set_callback statics_start (Some 7))
               (Idflog_info ''X'') world0)) \<noteq>
     [Callback 7 IDFLOG_INFO 1234 ''[1234] [INFO] X\<newline>'', Printf ''[1234] [INFO] X\<newline>'']"
proof -
  let ?g = "idflog_set_callback statics_start (Some 7)"
  have g: "log_callback ?g = Some 7 \<and> print_enabled ?g \<and> show_time_enabled ?g"
    by (simp add: idflog_set_callback_def statics_start_def)
  have idle: "(cb_idle :: statics user_code) 7 = cb_idle 7"
    by simp
  have n: "idflog_call_notified cb_idle ?g (Idflog_info ''X'') world0 =
             (?g, emit (Callback 7 IDFLOG_INFO 1234 ''X'') (world0\<lparr>reads := Suc 0\<rparr>))"
    using idflog_call_notified_idle [of ?g 7 cb_idle "Idflog_info ''X''" world0] g idle
    by (simp add: call_time_world0 world0_reads idflog_call_X)
  have "out (snd (idflog_run cb_idle ?g (Idflog_info ''X'') world0)) =
     [Callback 7 IDFLOG_INFO 1234 ''X'', Printf ''[1234] [INFO] X\<newline>'']"
    using g by (simp add: idflog_run_out n emit_simps out_world0 idflog_call_X)
  then show ?thesis by simp
qed

text \<open>
  C1, amended. At every logging entry point, whenever a callback is registered, the
  instance surface invokes it with the level, the timestamp and the rendered line, the
  same text its console write then writes; the standalone surface invokes it with the
  level, the timestamp and the message as passed to the dispatcher, without timestamp,
  tag or line terminator, and only its console write has the rendered line, which is
  never equal to that message. Apart from these texts the two surfaces dispatch alike:
  under the same print flag and callback pointer, with a callback that leaves the logger
  and the clock alone, a standalone call and the instance's formatted call of the same
  level read the clock once and reach the same sinks in the same order, the callback
  with the same level and timestamp.
\<close>

theorem callback_text_per_surface:
  "(logging_callback self = Some cb \<longrightarrow>
      slog_call_notified code self c w =
        code cb (slog_call_level c) (slog_call_time w) (slog_call_line self c w)
          (self, emit (Callback cb (slog_call_level c) (slog_call_time w)
                         (slog_call_line self c w)) (w\<lparr>reads := Suc (reads w)\<rparr>))
      \<and> out (snd (slog_run code self c w)) =
          out (snd (slog_call_notified code self c w))
          @ (if priv_print (fst (slog_call_notified code self c w))
             then [Printf (slog_call_line self c w)] else []))
   \<and> (logging_callback self = Some cb \<and> code cb = cb_idle cb \<longrightarrow>
      out (snd (slog_run code self c w)) =
        out w
        @ Callback cb (slog_call_level c) (slog_call_time w) (slog_call_line self c w)
        # (if priv_print self then [Printf (slog_call_line self c w)] else []))
   \<and> (log_callback g = Some cb \<longrightarrow>
      idflog_call_notified code' g c' w =
        code' cb (idflog_call_level c') (idflog_call_time w) (idflog_call_message c')
          (g, emit (Callback cb (idflog_call_level c') (idflog_call_time w)
                      (idflog_call_message c')) (w\<lparr>reads := Suc (reads w)\<rparr>))
      \<and> out (snd (idflog_run code' g c' w)) =
          out (snd (idflog_call_notified code' g c' w))
          @ (if print_enabled (fst (idflog_call_notified code' g c' w))
             then [Printf (idflog_call_line
                             (show_time_enabled (fst (idflog_call_notified code' g c' w))) c' w)]
             else []))
   \<and> (log_callback g = Some cb \<and> code' cb = cb_idle cb \<longrightarrow>
      out (snd (idflog_run code' g c' w)) =
        out w
        @ Callback cb (idflog_call_level c') (idflog_call_time w) (idflog_call_message c')
        # (if print_enabled g then [Printf (idflog_call_line (show_time_enabled g) c' w)]
           else []))
   \<and> idflog_call_message c' \<noteq> idflog_call_line show_t c' w
   \<and> (priv_print self = print_enabled g \<and> logging_callback self = None
        \<and> log_callback g = None \<longrightarrow>
        map erase_text (out (snd (slog_run code self (as_slog_call c') w))) =
          map erase_text (out (snd (idflog_run code' g c' w)))
        \<and> reads (snd (slog_run code self (as_slog_call c') w)) =
            reads (snd (idflog_run code' g c' w)))
   \<and> (priv_print self = print_enabled g \<and> logging_callback self = Some cb
        \<and> log_callback g = Some cb \<and> code cb = cb_idle cb \<and> code' cb = cb_idle cb \<longrightarrow>
        map erase_text (out (snd (slog_run code self (as_slog_call c') w))) =
          map erase_text (out (snd (idflog_run code' g c' w)))
        \<and> reads (snd (slog_run code self (as_slog_call c') w)) =
            reads (snd (idflog_run code' g c' w)))"
proof -
  have i1: "slog_call_notified code self c w =
        code cb (slog_call_level c) (slog_call_time w) (slog_call_line self c w)
          (self, emit (Callback cb (slog_call_level c) (slog_call_time w)
                         (slog_call_line self c w)) (w\<lparr>reads := Suc (reads w)\<rparr>))"
    if "logging_callback self = Some cb"
    using that by (rule slog_call_notified_Some)
  note i2 = slog_run_out [of code self c w]
  have i3: "out (snd (slog_run code self c w)) =
        out w
        @ Callback cb (slog_call_level c) (slog_call_time w) (slog_call_line self c w)
        # (if priv_print self then [Printf (slog_call_line self c w)] else [])"
    if "logging_callback self = Some cb \<and> code cb = cb_idle cb"
    using that by (simp add: slog_run_out slog_call_notified_idle emit_simps)
  have s1: "idflog_call_notified code' g c' w =
        code' cb (idflog_call_level c') (idflog_call_time w) (idflog_call_message c')
          (g, emit (Callback cb (idflog_call_level c') (idflog_call_time w)
                      (idflog_call_message c')) (w\<lparr>reads := Suc (reads w)\<rparr>))"
    if "log_callback g = Some cb"
    using that by (rule idflog_call_notified_Some)
  note s2 = idflog_run_out [of code' g c' w]
  have s3: "out (snd (idflog_run code' g c' w)) =
        out w
        @ Callback cb (idflog_call_level c') (idflog_call_time w) (idflog_call_message c')
        # (if print_enabled g then [Printf (idflog_call_line (show_time_enabled g) c' w)]
           else [])"
    if "log_callback g = Some cb \<and> code' cb = cb_idle cb"
    using that by (simp add: idflog_run_out idflog_call_notified_idle emit_simps)
  have differ: "idflog_call_message c' \<noteq> idflog_call_line show_t c' w"
    using send_logs_text_longer
      [of "idflog_call_message c'" show_t "idflog_call_time w" "idflog_call_level c'"]
    by (auto simp: idflog_call_line_def)
  have times: "slog_call_time w = idflog_call_time w"
    by (simp add: slog_call_time_def idflog_call_time_def get_timestamp_ms_eq)
  have alike1: "map erase_text (out (snd (slog_run code self (as_slog_call c') w))) =
          map erase_text (out (snd (idflog_run code' g c' w)))
        \<and> reads (snd (slog_run code self (as_slog_call c') w)) =
            reads (snd (idflog_run code' g c' w))"
    if "priv_print self = print_enabled g \<and> logging_callback self = None
        \<and> log_callback g = None"
    using that
    by (simp add: slog_run_out slog_run_reads idflog_run_out idflog_run_reads
          slog_call_notified_None idflog_call_notified_None)
  have alike2: "map erase_text (out (snd (slog_run code self (as_slog_call c') w))) =
          map erase_text (out (snd (idflog_run code' g c' w)))
        \<and> reads (snd (slog_run code self (as_slog_call c') w)) =
            reads (snd (idflog_run code' g c' w))"
    if "priv_print self = print_enabled g \<and> logging_callback self = Some cb
        \<and> log_callback g = Some cb \<and> code cb = cb_idle cb \<and> code' cb = cb_idle cb"
    using that
    by (simp add: slog_run_out slog_run_reads idflog_run_out idflog_run_reads
          slog_call_notified_idle idflog_call_notified_idle emit_simps as_slog_call_same times)
  from i1 i2 i3 s1 s2 s3 differ alike1 alike2 show ?thesis by blast
qed

theorem callback_text_per_surface_witness:
  "logging_callback (slog_set_log_callback (slog_init slog_zero) (Some 7)) = Some 7
   \<and> log_callback (idflog_set_callback statics_start (Some 7)) = Some 7
   \<and> priv_print (slog_set_log_callback (slog_init slog_zero) (Some 7)) =
       print_enabled (idflog_set_callback statics_start (Some 7))
   \<and> out (snd (slog_run cb_idle (slog_set_log_callback (slog_init slog_zero) (Some 7))
               (Slog_i ''X'') world0)) =
       [Callback 7 IDFLOG_INFO 1234 ''1234 [INFO]: X\<newline>'', Printf ''1234 [INFO]: X\<newline>'']
   \<and> out (snd (idflog_run cb_idle (idflog_set_callback statics_start (Some 7))
               (Idflog_info ''X'') world0)) =
       [Callback 7 IDFLOG_INFO 1234 ''X'', Printf ''[1234] [INFO] X\<newline>'']
   \<and> map erase_text
        (out (snd (slog_run cb_idle (slog_set_log_callback (slog_init slog_zero) (Some 7))
                     (as_slog_call (Idflog_info ''X'')) world0))) =
       map erase_text
        (out (snd (idflog_run cb_idle (idflog_set_callback statics_start (Some 7))
                     (Idflog_info ''X'') world0)))"
proof -
  let ?s = "slog_set_log_callback (slog_init slog_zero) (Some 7)"
  let ?g = "idflog_set_callback statics_start (Some 7)"
  have s: "logging_callback ?s = Some 7 \<and> priv_print ?s \<and> priv_time ?s"
    by (simp add: slog_set_log_callback_def slog_init_def)
  have g: "log_callback ?g = Some 7 \<and> print_enabled ?g \<and> show_time_enabled ?g"
    by (simp add: idflog_set_callback_def statics_start_def)
  have idle: "(cb_idle :: slog_t user_code) 7 = cb_idle 7
              \<and> (cb_idle :: statics user_code) 7 = cb_idle 7"
    by simp
  have same: "priv_print ?s = print_enabled ?g"
    using s g by simp
  note t = callback_text_per_surface [where self = ?s and cb = 7 and code = cb_idle
      and c = "Slog_i ''X''" and w = world0 and g = ?g and code' = cb_idle
      and c' = "Idflog_info ''X''"]
  have c1: "out (snd (slog_run cb_idle ?s (Slog_i ''X'') world0)) =
        out world0
        @ Callback 7 (slog_call_level (Slog_i ''X'')) (slog_call_time world0)
            (slog_call_line ?s (Slog_i ''X'') world0)
        # (if priv_print ?s then [Printf (slog_call_line ?s (Slog_i ''X'') world0)] else [])"
    using t s idle by blast
  have c2: "out (snd (idflog_run cb_idle ?g (Idflog_info ''X'') world0)) =
        out world0
        @ Callback 7 (idflog_call_level (Idflog_info ''X'')) (idflog_call_time world0)
            (idflog_call_message (Idflog_info ''X''))
        # (if print_enabled ?g
           then [Printf (idflog_call_line (show_time_enabled ?g) (Idflog_info ''X'') world0)]
           else [])"
    using t g idle by blast
  have c3: "map erase_text (out (snd (slog_run cb_idle ?s (as_slog_call (Idflog_info ''X''))
                                       world0))) =
              map erase_text (out (snd (idflog_run cb_idle ?g (Idflog_info ''X'') world0)))"
    using t s g same idle by blast
  from s g c1 c2 c3 show ?thesis
    by (simp add: out_world0 call_time_world0 slog_call_line_X idflog_call_X)
qed

end
